theory Spec2Isabelle
  imports Main "HOL-Library.AList"
begin

text \<open>
  The document extraction pipeline: the four processors that turn a PDF file or a
  web page into a record of text, tables, images and metadata
  (\<open>PDFProcessor\<close>, \<open>PDFEnterpriseProcessor\<close>, \<open>WebProcessor\<close>,
  \<open>WebEnterpriseProcessor\<close>) and the storage handler they upload to. The libraries
  and services they call (PyMuPDF, Azure Document Intelligence, the network,
  BeautifulSoup's parser, Diffbot, S3) are inputs of the model; what the processors
  do with their answers is translated function by function, every exception being
  a value \<open>Inl e\<close>.
\<close>

section \<open>Python values shared by the processors\<close>

text \<open>
  Python \<open>str\<close> and \<open>bytes\<close> values are both modelled as \<open>string\<close>, a list of
  bytes: a \<open>str\<close> is represented by its UTF-8 encoding, so \<open>s.encode('utf-8')\<close>
  is the identity of the model.
\<close>

type_synonym bytes = string

text \<open>\<open>str(n)\<close> for a non-negative integer, as the f-strings format it.\<close>

definition digit_char :: "nat \<Rightarrow> char" where
  "digit_char d = ''0123456789'' ! d"

function str_nat :: "nat \<Rightarrow> string" where
  "str_nat n = (if n < 10 then [digit_char n] else str_nat (n div 10) @ [digit_char (n mod 10)])"
  by pat_completeness auto
termination
  by (relation "measure id") auto

declare str_nat.simps [simp del]

text \<open>
  Every \<open>raise\<close> of the source is a value. Only the distinction between
  \<open>aiohttp.ClientError\<close> (with its subclasses) and everything else is ever tested by
  an \<open>except\<close> clause; the other constructors keep the raise sites apart. The
  string is \<open>str(e)\<close>; an \<open>HTTPException\<close> carries its \<open>status_code\<close> and its
  \<open>detail\<close>, and its \<open>str\<close> is \<open>"<status_code>: <detail>"\<close>.
\<close>

datatype py_exception =
    ClientError string
  | TimeoutError string
  | Exception string
  | ValueError string
  | TypeError string
  | KeyError string
  | IndexError string
  | AttributeError string
  | HTTPException nat string

fun str_exn :: "py_exception \<Rightarrow> string" where
  "str_exn (ClientError m) = m"
| "str_exn (TimeoutError m) = m"
| "str_exn (Exception m) = m"
| "str_exn (ValueError m) = m"
| "str_exn (TypeError m) = m"
| "str_exn (KeyError m) = m"
| "str_exn (IndexError m) = m"
| "str_exn (AttributeError m) = m"
| "str_exn (HTTPException status_code detail) = str_nat status_code @ '': '' @ detail"

fun is_ClientError :: "py_exception \<Rightarrow> bool" where
  "is_ClientError (ClientError m) = True"
| "is_ClientError e = False"

text \<open>\<open>s.startswith(p)\<close>.\<close>

definition startswith :: "string \<Rightarrow> string \<Rightarrow> bool" where
  "startswith s p = (take (length p) s = p)"

text \<open>
  \<open>str.strip()\<close> removes the leading and the trailing whitespace characters of
  Unicode: U+0009 to U+000D, U+001C to U+0020, U+0085, U+00A0, U+1680, U+2000 to
  U+200A, U+2028, U+2029, U+202F, U+205F and U+3000. \<open>whitespace\<close> lists their UTF-8
  encodings. In UTF-8 the encoding of a character is neither the beginning nor the
  end of the encoding of another one, so a string begins (or ends) with a whitespace
  character exactly when its encoding begins (or ends) with one of these words.
\<close>

definition whitespace :: "string list" where
  "whitespace =
     [[CHR 0x09], [CHR 0x0A], [CHR 0x0B], [CHR 0x0C], [CHR 0x0D],
      [CHR 0x1C], [CHR 0x1D], [CHR 0x1E], [CHR 0x1F], [CHR 0x20],
      [CHR 0xC2, CHR 0x85], [CHR 0xC2, CHR 0xA0],
      [CHR 0xE1, CHR 0x9A, CHR 0x80],
      [CHR 0xE2, CHR 0x80, CHR 0x80], [CHR 0xE2, CHR 0x80, CHR 0x81],
      [CHR 0xE2, CHR 0x80, CHR 0x82], [CHR 0xE2, CHR 0x80, CHR 0x83],
      [CHR 0xE2, CHR 0x80, CHR 0x84], [CHR 0xE2, CHR 0x80, CHR 0x85],
      [CHR 0xE2, CHR 0x80, CHR 0x86], [CHR 0xE2, CHR 0x80, CHR 0x87],
      [CHR 0xE2, CHR 0x80, CHR 0x88], [CHR 0xE2, CHR 0x80, CHR 0x89],
      [CHR 0xE2, CHR 0x80, CHR 0x8A],
      [CHR 0xE2, CHR 0x80, CHR 0xA8], [CHR 0xE2, CHR 0x80, CHR 0xA9],
      [CHR 0xE2, CHR 0x80, CHR 0xAF],
      [CHR 0xE2, CHR 0x81, CHR 0x9F],
      [CHR 0xE3, CHR 0x80, CHR 0x80]]"

text \<open>As long as the string begins with one of the given words, that word is removed.\<close>

function drop_leading :: "string list \<Rightarrow> string \<Rightarrow> string" where
  "drop_leading ws s =
     (case find (\<lambda>w. w \<noteq> [] \<and> startswith s w) ws of
        None \<Rightarrow> s
      | Some w \<Rightarrow> drop_leading ws (drop (length w) s))"
  by pat_completeness auto
termination
proof (relation "measure (\<lambda>(ws, s). length s)")
  show "wf (measure (\<lambda>(ws, s). length s))" by simp
next
  fix ws :: "string list" and s w :: string
  assume "find (\<lambda>w. w \<noteq> [] \<and> startswith s w) ws = Some w"
  then have "w \<noteq> []" and "take (length w) s = w"
    by (auto simp: find_Some_iff startswith_def)
  then have "s \<noteq> []" by auto
  with \<open>w \<noteq> []\<close> show "((ws, drop (length w) s), (ws, s)) \<in> measure (\<lambda>(ws, s). length s)"
    by simp
qed

declare drop_leading.simps [simp del]

definition lstrip :: "string \<Rightarrow> string" where
  "lstrip s = drop_leading whitespace s"

definition rstrip :: "string \<Rightarrow> string" where
  "rstrip s = rev (drop_leading (map rev whitespace) (rev s))"

definition strip :: "string \<Rightarrow> string" where
  "strip s = rstrip (lstrip s)"

text \<open>\<open>sep.join(xs)\<close>.\<close>

fun join :: "string \<Rightarrow> string list \<Rightarrow> string" where
  "join sep [] = []"
| "join sep [x] = x"
| "join sep (x # y # ys) = x @ sep @ join sep (y # ys)"

text \<open>\<open>os.path.basename\<close>: what follows the last slash.\<close>

definition basename :: "string \<Rightarrow> string" where
  "basename p = rev (takeWhile (\<lambda>c. c \<noteq> CHR ''/'') (rev p))"

text \<open>A Python dictionary with string keys, in insertion order; \<open>d[k] = v\<close> is
  \<^const>\<open>AList.update\<close> and \<open>{}\<close> is \<open>[]\<close>.\<close>

type_synonym 'v dict = "(string \<times> 'v) list"

definition dict_get :: "'v dict \<Rightarrow> string \<Rightarrow> 'v \<Rightarrow> 'v" where
  "dict_get d k dflt = (case map_of d k of None \<Rightarrow> dflt | Some v \<Rightarrow> v)"

text \<open>The values handed to \<open>json.dumps\<close>.\<close>

datatype json = JNull | JStr string | JInt int | JList "json list" | JDict "(string \<times> json) list"


section \<open>External collaborators\<close>

subsection \<open>The object store\<close>

text \<open>
  What a caller hands to \<open>upload\<close>: an \<open>io.BytesIO\<close> (its buffer and its read
  position), a plain \<open>bytes\<close> object, or a dictionary.
\<close>

datatype file_data = BytesIO bytes nat | Bytes bytes | Dict json

text \<open>
  The processors only use the \<open>upload\<close> method of their storage client. It is
  the bound method: file data, key, the content type when the caller passes one
  (\<open>None\<close> for a two-argument call), and the store's state before; it returns the
  key or raises, and the state after.
\<close>

type_synonym 's storage_client =
  "file_data \<Rightarrow> string \<Rightarrow> string option \<Rightarrow> 's \<Rightarrow> (py_exception + string) \<times> 's"

text \<open>Sequencing of calls that may raise and that change the store.\<close>

definition and_then ::
  "('s \<Rightarrow> (py_exception + 'a) \<times> 's) \<Rightarrow> ('a \<Rightarrow> 's \<Rightarrow> (py_exception + 'b) \<times> 's)
     \<Rightarrow> 's \<Rightarrow> (py_exception + 'b) \<times> 's" where
  "and_then m f s = (case m s of (Inl e, s') \<Rightarrow> (Inl e, s') | (Inr a, s') \<Rightarrow> f a s')"

definition returns :: "'a \<Rightarrow> 's \<Rightarrow> (py_exception + 'a) \<times> 's" where
  "returns a s = (Inr a, s)"

text \<open>An expression that may raise and leaves the store alone.\<close>

definition evaluates :: "py_exception + 'a \<Rightarrow> 's \<Rightarrow> (py_exception + 'a) \<times> 's" where
  "evaluates r s = (r, s)"

subsection \<open>PyMuPDF documents\<close>

text \<open>
  \<open>doc.extract_image(xref)\<close> raises, returns an empty (falsy) dictionary, or returns
  the image bytes and their extension. A page is its \<open>get_text()\<close> and, for every
  entry of \<open>get_images()\<close>, what extracting that entry gives.
\<close>

record base_image =
  bi_image :: bytes
  bi_ext :: string

type_synonym image_ref = "py_exception + base_image option"

record pdf_page =
  page_get_text :: string
  page_get_images :: "image_ref list"

record pdf_doc =
  doc_pages :: "pdf_page list"
  doc_metadata :: "string dict"

record image_data =
  img_data :: bytes
  img_ext :: string
  img_page :: nat
  img_index :: nat

subsection \<open>Azure Document Intelligence results\<close>

record document_page =
  page_lines :: "string list"

record table_cell =
  row_index :: nat
  column_index :: nat
  cell_content :: string

record document_table =
  row_count :: nat
  column_count :: nat
  cells :: "table_cell list"

text \<open>\<open>kv.key\<close> and \<open>kv.value\<close> are elements with a \<open>content\<close>, or \<open>None\<close>.\<close>

record key_value_pair =
  kv_key :: "string option"
  kv_value :: "string option"

record analyze_result =
  ar_pages :: "document_page list"
  ar_tables :: "document_table list"
  ar_key_value_pairs :: "key_value_pair list"

subsection \<open>The environment of the PDF processors\<close>

text \<open>
  \<open>fitz_open\<close> is \<open>fitz.open(file_path)\<close>; \<open>azure_analyze\<close> is
  \<open>begin_analyze_document("prebuilt-document", f).result()\<close> on the opened file,
  under the processor's timeout (a timeout is one of its exceptions); the rest are
  \<open>os.path.getsize\<close>, \<open>json.dumps\<close>, \<open>DataFrame(t).to_csv(index=False)\<close> and the
  two renderings of \<open>datetime.now()\<close>.
\<close>

record pdf_env =
  fitz_open :: "string \<Rightarrow> py_exception + pdf_doc"
  azure_analyze :: "string \<Rightarrow> py_exception + analyze_result"
  getsize :: "string \<Rightarrow> nat"
  json_dumps :: "json \<Rightarrow> string"
  to_csv :: "string list list \<Rightarrow> string"
  now_strftime :: string
  now_isoformat :: string

section \<open>The local PDF adapter (\<open>extract_pdf_opensource.py\<close>)\<close>

text \<open>
  The inner loop over \<open>enumerate(page.get_images(full=True))\<close>: an image whose
  extraction raises is logged and skipped, an empty result is skipped.
\<close>

fun page_images :: "nat \<Rightarrow> nat \<Rightarrow> image_ref list \<Rightarrow> image_data list" where
  "page_images page_num img_idx [] = []"
| "page_images page_num img_idx (img # rest) =
     (case img of
        Inl img_error \<Rightarrow> []
      | Inr None \<Rightarrow> []
      | Inr (Some base) \<Rightarrow>
          [\<lparr>img_data = bi_image base, img_ext = bi_ext base,
            img_page = page_num + 1, img_index = img_idx\<rparr>])
     @ page_images page_num (img_idx + 1) rest"

text \<open>The loop over \<open>range(len(doc))\<close>, returning \<open>text_content\<close> and \<open>images\<close>.\<close>

fun pages_loop :: "nat \<Rightarrow> pdf_page list \<Rightarrow> string list \<times> image_data list" where
  "pages_loop page_num [] = ([], [])"
| "pages_loop page_num (page # rest) =
     (let text = page_get_text page;
          (texts, images) = pages_loop (page_num + 1) rest
      in ((if strip text \<noteq> [] then [text] else []) @ texts,
          page_images page_num 0 (page_get_images page) @ images))"

record os_doc_metadata =
  md_title :: string
  md_author :: string
  md_subject :: string
  md_keywords :: string
  md_page_count :: nat
  md_file_size :: nat
  md_creation_date :: string
  md_modification_date :: string

record os_content =
  oc_text_content :: "string list"
  oc_images :: "image_data list"
  oc_tables :: "string list list list"
  oc_metadata :: os_doc_metadata

definition PDFProcessor_extract_content :: "pdf_env \<Rightarrow> string \<Rightarrow> py_exception + os_content" where
  "PDFProcessor_extract_content env file_path =
     (case fitz_open env file_path of
        Inl e \<Rightarrow> Inl e
      | Inr doc \<Rightarrow>
          (let (text_content, images) = pages_loop 0 (doc_pages doc);
               tables = [];
               metadata = \<lparr>md_title = dict_get (doc_metadata doc) ''title'' [],
                           md_author = dict_get (doc_metadata doc) ''author'' [],
                           md_subject = dict_get (doc_metadata doc) ''subject'' [],
                           md_keywords = dict_get (doc_metadata doc) ''keywords'' [],
                           md_page_count = length (doc_pages doc),
                           md_file_size = getsize env file_path,
                           md_creation_date = dict_get (doc_metadata doc) ''creationDate'' [],
                           md_modification_date = dict_get (doc_metadata doc) ''modDate'' []\<rparr>
           in Inr \<lparr>oc_text_content = text_content, oc_images = images,
                    oc_tables = tables, oc_metadata = metadata\<rparr>))"

definition PDFProcessor_generate_document_id :: "pdf_env \<Rightarrow> string \<Rightarrow> string" where
  "PDFProcessor_generate_document_id env file_path =
     ''pdf_os_'' @ basename file_path @ ''_'' @ now_strftime env"

definition os_metadata_json :: "os_doc_metadata \<Rightarrow> json" where
  "os_metadata_json m = JDict
     [(''title'', JStr (md_title m)), (''author'', JStr (md_author m)),
      (''subject'', JStr (md_subject m)), (''keywords'', JStr (md_keywords m)),
      (''page_count'', JInt (int (md_page_count m))), (''file_size'', JInt (int (md_file_size m))),
      (''creation_date'', JStr (md_creation_date m)),
      (''modification_date'', JStr (md_modification_date m))]"

text \<open>The loop storing the images: \<open>for idx, img in enumerate(content['images'])\<close>.\<close>

primrec store_images ::
  "'s storage_client \<Rightarrow> string \<Rightarrow> image_data list \<Rightarrow> nat \<Rightarrow> string dict
     \<Rightarrow> 's \<Rightarrow> (py_exception + string dict) \<times> 's" where
  "store_images upload images_folder [] = (\<lambda>idx storage_paths. returns storage_paths)"
| "store_images upload images_folder (img # rest) = (\<lambda>idx storage_paths.
     let img_key = images_folder @ ''/image_'' @ str_nat idx @ ''.'' @ img_ext img
     in and_then (upload (Bytes (img_data img)) img_key None)
          (\<lambda>_. store_images upload images_folder rest (idx + 1)
                 (AList.update (''image_'' @ str_nat idx) img_key storage_paths)))"

text \<open>
  \<open>PDFProcessor._store_content\<close>: the body of the \<open>try\<close>, then the handler, which
  returns \<open>{}\<close> for any exception.
\<close>

definition PDFProcessor_store_try ::
  "pdf_env \<Rightarrow> 's storage_client option \<Rightarrow> os_content \<Rightarrow> string
     \<Rightarrow> 's \<Rightarrow> (py_exception + string dict) \<times> 's" where
  "PDFProcessor_store_try env storage_client content doc_id =
     (let base_folder = ''PDF/Opensource/'' @ doc_id in
      case storage_client of
        None \<Rightarrow> returns []
      | Some upload \<Rightarrow>
          (let text_content = join [CHR 0x0A, CHR 0x0A] (oc_text_content content);
               text_key = base_folder @ ''/text_content.txt''
           in and_then (upload (Bytes text_content) text_key None) (\<lambda>_.
              let metadata_key = base_folder @ ''/metadata.json'';
                  metadata_json = json_dumps env (os_metadata_json (oc_metadata content))
              in and_then (upload (Bytes metadata_json) metadata_key None) (\<lambda>_.
                 let storage_paths = [(''text'', text_key), (''metadata'', metadata_key)]
                 in if oc_images content \<noteq> []
                    then store_images upload (base_folder @ ''/images'')
                           (oc_images content) 0 storage_paths
                    else returns storage_paths))))"

definition PDFProcessor_store_content ::
  "pdf_env \<Rightarrow> 's storage_client option \<Rightarrow> os_content \<Rightarrow> string
     \<Rightarrow> 's \<Rightarrow> (py_exception + string dict) \<times> 's" where
  "PDFProcessor_store_content env storage_client content doc_id s =
     (case PDFProcessor_store_try env storage_client content doc_id s of
        (Inl e, s') \<Rightarrow> (Inr [], s')
      | (Inr storage_paths, s') \<Rightarrow> (Inr storage_paths, s'))"

record image_descriptor =
  id_page :: nat
  id_index :: nat
  id_ext :: string

record os_result_content =
  orc_text :: "string list"
  orc_tables :: "string list list list"
  orc_images :: "image_descriptor list option"

record os_result_metadata =
  orm_document :: os_doc_metadata
  orm_storage_paths :: "string dict"
  orm_processor :: string
  orm_timestamp :: string

record os_result =
  or_document_id :: string
  or_content :: os_result_content
  or_metadata :: os_result_metadata

text \<open>
  \<open>PDFProcessor.process_pdf\<close>. The key \<open>images\<close> of the content is only set when
  images were found (\<open>None\<close> is the absent key); \<open>orm_document\<close> is the unpacked
  \<open>**content["metadata"]\<close>. The call of \<open>_store_content\<close> has a handler of its own
  that keeps \<open>storage_paths = {}\<close>.
\<close>

definition PDFProcessor_process_pdf ::
  "pdf_env \<Rightarrow> 's storage_client option \<Rightarrow> string \<Rightarrow> 's \<Rightarrow> (py_exception + os_result) \<times> 's" where
  "PDFProcessor_process_pdf env storage_client file_path s =
     (let doc_id = PDFProcessor_generate_document_id env file_path in
      case PDFProcessor_extract_content env file_path of
        Inl e \<Rightarrow> (Inl e, s)
      | Inr content \<Rightarrow>
          (let (storage_paths, s') =
                 (case storage_client of
                    None \<Rightarrow> ([], s)
                  | Some upload \<Rightarrow>
                      (case PDFProcessor_store_content env storage_client content doc_id s of
                         (Inl storage_error, s') \<Rightarrow> ([], s')
                       | (Inr paths, s') \<Rightarrow> (paths, s')))
           in (Inr \<lparr>or_document_id = doc_id,
                     or_content = \<lparr>orc_text = oc_text_content content,
                                    orc_tables = oc_tables content,
                                    orc_images =
                                      (if oc_images content \<noteq> []
                                       then Some (map (\<lambda>img. \<lparr>id_page = img_page img,
                                                               id_index = img_index img,
                                                               id_ext = img_ext img\<rparr>)
                                                      (oc_images content))
                                       else None)\<rparr>,
                     or_metadata = \<lparr>orm_document = oc_metadata content,
                                     orm_storage_paths = storage_paths,
                                     orm_processor = ''PyMuPDF'',
                                     orm_timestamp = now_isoformat env\<rparr>\<rparr>, s')))"

section \<open>The cloud PDF adapter (\<open>extract_pdf_enterprise.py\<close>)\<close>

text \<open>
  \<open>os.getenv\<close> gives a string or \<open>None\<close>; \<open>not x\<close> holds for \<open>None\<close> and for
  the empty string.
\<close>

definition falsy :: "string option \<Rightarrow> bool" where
  "falsy v = (case v of None \<Rightarrow> True | Some s \<Rightarrow> s = [])"

record pdf_enterprise_processor =
  pep_use_fallback :: bool
  pep_timeout :: nat

text \<open>
  \<open>PDFEnterpriseProcessor.__init__\<close>: the two environment variables, and whether
  constructing the \<open>DocumentAnalysisClient\<close> succeeds. \<open>document_analysis_client\<close>
  is \<open>None\<close> exactly when \<open>use_fallback\<close> is set.
\<close>

definition PDFEnterpriseProcessor_init ::
  "string option \<Rightarrow> string option \<Rightarrow> bool \<Rightarrow> pdf_enterprise_processor" where
  "PDFEnterpriseProcessor_init endpoint key client_constructs =
     (if falsy endpoint \<or> falsy key then \<lparr>pep_use_fallback = True, pep_timeout = 300\<rparr>
      else if client_constructs then \<lparr>pep_use_fallback = False, pep_timeout = 300\<rparr>
      else \<lparr>pep_use_fallback = True, pep_timeout = 300\<rparr>)"

subsection \<open>Tables\<close>

text \<open>
  \<open>_process_with_azure\<close> builds a table from the declared \<open>row_count\<close> and
  \<open>column_count\<close>; \<open>next(..., None)\<close> is the first cell at the position.
\<close>

definition cell_at :: "table_cell list \<Rightarrow> nat \<Rightarrow> nat \<Rightarrow> string" where
  "cell_at cs row_idx col_idx =
     (case find (\<lambda>cell. row_index cell = row_idx \<and> column_index cell = col_idx) cs of
        None \<Rightarrow> []
      | Some cell \<Rightarrow> cell_content cell)"

definition azure_table_data :: "document_table \<Rightarrow> string list list" where
  "azure_table_data table =
     map (\<lambda>row_idx. map (\<lambda>col_idx. cell_at (cells table) row_idx col_idx)
                          [0..<column_count table])
         [0..<row_count table]"

fun azure_tables :: "document_table list \<Rightarrow> string list list list" where
  "azure_tables [] = []"
| "azure_tables (table # rest) =
     (let table_data = azure_table_data table
      in (if table_data \<noteq> [] then [table_data] else []) @ azure_tables rest)"

text \<open>
  \<open>_extract_content\<close> sizes a table by the largest indices of its cells. \<open>max\<close>
  of no cells raises \<open>ValueError\<close>; an assignment outside the grid would raise
  \<open>IndexError\<close>.
\<close>

definition py_max :: "nat list \<Rightarrow> py_exception + nat" where
  "py_max xs = (case xs of [] \<Rightarrow> Inl (ValueError ''max() arg is an empty sequence'')
                | x # rest \<Rightarrow> Inr (fold max rest x))"

fun fill_cells :: "table_cell list \<Rightarrow> string list list \<Rightarrow> py_exception + string list list" where
  "fill_cells [] table_data = Inr table_data"
| "fill_cells (cell # rest) table_data =
     (if row_index cell < length table_data
         \<and> column_index cell < length (table_data ! row_index cell)
      then fill_cells rest
             (table_data[row_index cell :=
                (table_data ! row_index cell)[column_index cell := cell_content cell]])
      else Inl (IndexError ''list assignment index out of range''))"

definition indexed_table_data :: "document_table \<Rightarrow> py_exception + string list list" where
  "indexed_table_data table =
     (case py_max (map row_index (cells table)) of
        Inl e \<Rightarrow> Inl e
      | Inr r \<Rightarrow>
          (case py_max (map column_index (cells table)) of
             Inl e \<Rightarrow> Inl e
           | Inr c \<Rightarrow>
               (let rows = r + 1; cols = c + 1
                in fill_cells (cells table) (replicate rows (replicate cols [])))))"


subsection \<open>Key-value pairs and page text\<close>

fun key_value_loop :: "key_value_pair list \<Rightarrow> string dict \<Rightarrow> string dict" where
  "key_value_loop [] key_value_pairs = key_value_pairs"
| "key_value_loop (kv # rest) key_value_pairs =
     key_value_loop rest
       (case (kv_key kv, kv_value kv) of
          (Some k, Some v) \<Rightarrow> AList.update k v key_value_pairs
        | _ \<Rightarrow> key_value_pairs)"

definition azure_page_text :: "document_page \<Rightarrow> string" where
  "azure_page_text page = join [CHR 0x0A] (page_lines page)"

subsection \<open>\<open>_extract_images_from_pdf\<close> and \<open>_extract_content\<close>\<close>

text \<open>
  The image routine of this class numbers the images of a page from 1 and reads
  \<open>base_image["image"]\<close> without testing the dictionary (an empty one raises
  \<open>KeyError\<close>, which the handler of the loop body swallows). Any error outside the
  loop body gives \<open>[]\<close>.
\<close>

fun enterprise_page_images :: "nat \<Rightarrow> nat \<Rightarrow> image_ref list \<Rightarrow> image_data list" where
  "enterprise_page_images page_num img_idx [] = []"
| "enterprise_page_images page_num img_idx (img # rest) =
     (case img of
        Inl e \<Rightarrow> []
      | Inr None \<Rightarrow> []
      | Inr (Some base) \<Rightarrow>
          [\<lparr>img_data = bi_image base, img_ext = bi_ext base,
            img_page = page_num + 1, img_index = img_idx + 1\<rparr>])
     @ enterprise_page_images page_num (img_idx + 1) rest"

fun enterprise_images_loop :: "nat \<Rightarrow> pdf_page list \<Rightarrow> image_data list" where
  "enterprise_images_loop page_num [] = []"
| "enterprise_images_loop page_num (page # rest) =
     enterprise_page_images page_num 0 (page_get_images page)
     @ enterprise_images_loop (page_num + 1) rest"

definition PDFEnterpriseProcessor_extract_images_from_pdf :: "py_exception + pdf_doc \<Rightarrow> image_data list" where
  "PDFEnterpriseProcessor_extract_images_from_pdf opened =
     (case opened of Inl e \<Rightarrow> [] | Inr doc \<Rightarrow> enterprise_images_loop 0 (doc_pages doc))"



subsection \<open>The two engines of \<open>process_pdf\<close>\<close>

record engine_metadata =
  em_page_count :: nat
  em_processor :: string
  em_timestamp :: string

text \<open>
  The dictionaries returned by \<open>_process_with_azure\<close> and \<open>_process_with_pymupdf\<close>
  have different keys; \<open>None\<close> is an absent key.
\<close>

record engine_result =
  er_text_content :: "string list"
  er_tables :: "string list list list"
  er_images :: "image_data list option"
  er_key_value_pairs :: "string dict option"
  er_metadata :: engine_metadata

definition PDFEnterpriseProcessor_process_with_azure :: "pdf_env \<Rightarrow> string \<Rightarrow> py_exception + engine_result" where
  "PDFEnterpriseProcessor_process_with_azure env file_path =
     (case azure_analyze env file_path of
        Inl e \<Rightarrow> Inl e
      | Inr result \<Rightarrow>
          Inr \<lparr>er_text_content = map azure_page_text (ar_pages result),
               er_tables = azure_tables (ar_tables result),
               er_images = None,
               er_key_value_pairs = Some (key_value_loop (ar_key_value_pairs result) []),
               er_metadata = \<lparr>em_page_count = length (ar_pages result),
                               em_processor = ''Azure Document Intelligence'',
                               em_timestamp = now_isoformat env\<rparr>\<rparr>)"

definition PDFEnterpriseProcessor_process_with_pymupdf :: "pdf_env \<Rightarrow> string \<Rightarrow> py_exception + engine_result" where
  "PDFEnterpriseProcessor_process_with_pymupdf env file_path =
     (case fitz_open env file_path of
        Inl e \<Rightarrow> Inl e
      | Inr doc \<Rightarrow>
          (let (text_content, images) = pages_loop 0 (doc_pages doc)
           in Inr \<lparr>er_text_content = text_content,
                    er_tables = [],
                    er_images = Some images,
                    er_key_value_pairs = None,
                    er_metadata = \<lparr>em_page_count = length (doc_pages doc),
                                    em_processor = ''PyMuPDF (fallback)'',
                                    em_timestamp = now_isoformat env\<rparr>\<rparr>))"

text \<open>
  \<open>async_timeout\<close> turns a \<open>TimeoutError\<close> into an \<open>HTTPException\<close>; the
  handlers of \<open>_extract_content_azure\<close> and \<open>_extract_content_fallback\<close> turn a
  \<open>TimeoutError\<close> that is left into one as well and re-raise everything else.
\<close>

definition async_timeout :: "nat \<Rightarrow> py_exception + 'a \<Rightarrow> py_exception + 'a" where
  "async_timeout timeout r =
     (case r of
        Inl (TimeoutError m) \<Rightarrow>
          Inl (HTTPException 500 (''Operation timed out after '' @ str_nat timeout @ '' seconds''))
      | _ \<Rightarrow> r)"

definition on_timeout :: "string \<Rightarrow> py_exception + 'a \<Rightarrow> py_exception + 'a" where
  "on_timeout detail r =
     (case r of Inl (TimeoutError m) \<Rightarrow> Inl (HTTPException 500 detail) | _ \<Rightarrow> r)"

definition PDFEnterpriseProcessor_extract_content_azure ::
  "pdf_enterprise_processor \<Rightarrow> pdf_env \<Rightarrow> string \<Rightarrow> py_exception + engine_result" where
  "PDFEnterpriseProcessor_extract_content_azure self env file_path =
     on_timeout ''Azure processing timed out''
       (async_timeout (pep_timeout self) (PDFEnterpriseProcessor_process_with_azure env file_path))"

definition PDFEnterpriseProcessor_extract_content_fallback ::
  "pdf_enterprise_processor \<Rightarrow> pdf_env \<Rightarrow> string \<Rightarrow> py_exception + engine_result" where
  "PDFEnterpriseProcessor_extract_content_fallback self env file_path =
     on_timeout ''PDF processing timed out''
       (async_timeout (pep_timeout self) (PDFEnterpriseProcessor_process_with_pymupdf env file_path))"

subsection \<open>\<open>_store_content\<close> and \<open>process_pdf\<close>\<close>

definition engine_metadata_json :: "engine_metadata \<Rightarrow> json" where
  "engine_metadata_json m = JDict
     [(''page_count'', JInt (int (em_page_count m))), (''processor'', JStr (em_processor m)),
      (''timestamp'', JStr (em_timestamp m))]"

text \<open>The loop \<open>for idx, table in enumerate(content["tables"])\<close>.\<close>

primrec store_tables ::
  "pdf_env \<Rightarrow> 's storage_client \<Rightarrow> string \<Rightarrow> string list list list \<Rightarrow> nat \<Rightarrow> string dict
     \<Rightarrow> 's \<Rightarrow> (py_exception + string dict) \<times> 's" where
  "store_tables env upload base_folder [] = (\<lambda>idx storage_paths. returns storage_paths)"
| "store_tables env upload base_folder (table # rest) = (\<lambda>idx storage_paths.
     let table_key = base_folder @ ''/table_'' @ str_nat (idx + 1) @ ''.csv''
     in and_then (upload (BytesIO (to_csv env table) 0) table_key (Some ''text/csv''))
          (\<lambda>_. store_tables env upload base_folder rest (idx + 1)
                 (AList.update (''table_'' @ str_nat (idx + 1)) table_key storage_paths)))"

text \<open>
  \<open>PDFEnterpriseProcessor._store_content\<close>: the handler logs and re-raises, so the
  function is the body of its \<open>try\<close>.
\<close>

definition PDFEnterpriseProcessor_store_content ::
  "pdf_env \<Rightarrow> 's storage_client option \<Rightarrow> engine_result \<Rightarrow> string
     \<Rightarrow> 's \<Rightarrow> (py_exception + string dict) \<times> 's" where
  "PDFEnterpriseProcessor_store_content env storage_client content doc_id =
     (let base_folder = ''PDF/Enterprise/'' @ doc_id in
      case storage_client of
        None \<Rightarrow> returns []
      | Some upload \<Rightarrow>
          (let text_content = join [CHR 0x0A, CHR 0x0A] (er_text_content content);
               text_key = base_folder @ ''/text_content.txt''
           in and_then (upload (BytesIO text_content 0) text_key (Some ''text/plain'')) (\<lambda>_.
              and_then (store_tables env upload base_folder (er_tables content) 0
                          [(''text'', text_key)]) (\<lambda>storage_paths.
              let metadata_key = base_folder @ ''/metadata.json'';
                  metadata_json = json_dumps env (engine_metadata_json (er_metadata content))
              in and_then (upload (BytesIO metadata_json 0) metadata_key
                             (Some ''application/json'')) (\<lambda>_.
                 returns (AList.update ''metadata'' metadata_key storage_paths))))))"

definition PDFEnterpriseProcessor_generate_document_id ::
  "pdf_enterprise_processor \<Rightarrow> pdf_env \<Rightarrow> string \<Rightarrow> string" where
  "PDFEnterpriseProcessor_generate_document_id self env file_path =
     ''pdf_'' @ (if pep_use_fallback self then ''fallback'' else ''azure'') @ ''_''
       @ basename file_path @ ''_'' @ now_strftime env"

record pdf_response_content =
  prc_text :: "string list"
  prc_tables :: "string list list list"
  prc_images :: "image_data list"
  prc_key_value_pairs :: "string dict"

record pdf_response_metadata =
  prm_filename :: string
  prm_timestamp :: string
  prm_processor :: string
  prm_page_count :: nat
  prm_storage_paths :: "string dict"

record pdf_response =
  pr_status :: string
  pr_message :: string
  pr_document_id :: string
  pr_timestamp :: string
  pr_content :: pdf_response_content
  pr_metadata :: pdf_response_metadata

text \<open>
  \<open>PDFEnterpriseProcessor.process_pdf\<close>. Every exception of the body, the one of
  \<open>_store_content\<close> included, leaves as \<open>HTTPException(500)\<close>.
\<close>

definition PDFEnterpriseProcessor_process_pdf_try ::
  "pdf_enterprise_processor \<Rightarrow> pdf_env \<Rightarrow> 's storage_client option \<Rightarrow> string
     \<Rightarrow> 's \<Rightarrow> (py_exception + pdf_response) \<times> 's" where
  "PDFEnterpriseProcessor_process_pdf_try self env storage_client file_path s =
     (let doc_id = PDFEnterpriseProcessor_generate_document_id self env file_path;
          timestamp = now_isoformat env
      in case (if pep_use_fallback self then PDFEnterpriseProcessor_extract_content_fallback self env file_path
               else PDFEnterpriseProcessor_extract_content_azure self env file_path) of
           Inl e \<Rightarrow> (Inl e, s)
         | Inr result \<Rightarrow>
             (case (case storage_client of
                      None \<Rightarrow> returns [] s
                    | Some upload \<Rightarrow>
                        PDFEnterpriseProcessor_store_content env storage_client result doc_id s) of
                (Inl e, s') \<Rightarrow> (Inl e, s')
              | (Inr storage_paths, s') \<Rightarrow>
                  (Inr \<lparr>pr_status = ''success'',
                        pr_message = ''PDF processed successfully'',
                        pr_document_id = doc_id,
                        pr_timestamp = timestamp,
                        pr_content =
                          \<lparr>prc_text = er_text_content result,
                           prc_tables = er_tables result,
                           prc_images = (case er_images result of None \<Rightarrow> [] | Some i \<Rightarrow> i),
                           prc_key_value_pairs =
                             (case er_key_value_pairs result of None \<Rightarrow> [] | Some d \<Rightarrow> d)\<rparr>,
                        pr_metadata =
                          \<lparr>prm_filename = basename file_path,
                           prm_timestamp = timestamp,
                           prm_processor =
                             (if pep_use_fallback self then ''PyMuPDF (fallback)''
                              else ''Azure Document Intelligence''),
                           prm_page_count = em_page_count (er_metadata result),
                           prm_storage_paths = storage_paths\<rparr>\<rparr>, s')))"

definition PDFEnterpriseProcessor_process_pdf ::
  "pdf_enterprise_processor \<Rightarrow> pdf_env \<Rightarrow> 's storage_client option \<Rightarrow> string
     \<Rightarrow> 's \<Rightarrow> (py_exception + pdf_response) \<times> 's" where
  "PDFEnterpriseProcessor_process_pdf self env storage_client file_path s =
     (case PDFEnterpriseProcessor_process_pdf_try self env storage_client file_path s of
        (Inl e, s') \<Rightarrow> (Inl (HTTPException 500 (''Error processing PDF: '' @ str_exn e)), s')
      | (Inr r, s') \<Rightarrow> (Inr r, s'))"

section \<open>The web adapters\<close>

subsection \<open>Parsed markup\<close>

text \<open>
  What \<open>BeautifulSoup(html, 'html.parser')\<close> gives: a tree of tags (name,
  attributes, contents) and strings. The soup itself is the root tag. A string is a
  \<open>NavigableString\<close> (or a \<open>CData\<close>, which every method used here treats alike) or
  belongs to one of the subclasses that \<open>get_text()\<close> leaves out and \<open>.string\<close>
  returns: \<open>Comment\<close>, \<open>Declaration\<close>, \<open>Doctype\<close>, \<open>ProcessingInstruction\<close>
  and the contents of \<open>script\<close>, \<open>style\<close>, \<open>template\<close>, \<open>rt\<close> and \<open>rp\<close>
  elements. These are the constructor \<open>Comment\<close>.
\<close>

datatype html_node =
    Tag string "(string \<times> string) list" "html_node list"
  | NavigableString string
  | Comment string

text \<open>The descendants of a node, in document order.\<close>

fun descendants :: "html_node \<Rightarrow> html_node list" where
  "descendants (NavigableString s) = []"
| "descendants (Comment s) = []"
| "descendants (Tag name attrs contents) = concat (map (\<lambda>c. c # descendants c) contents)"

fun has_name :: "string list \<Rightarrow> html_node \<Rightarrow> bool" where
  "has_name names (NavigableString s) = False"
| "has_name names (Comment s) = False"
| "has_name names (Tag name attrs contents) = (name \<in> set names)"

definition find_all :: "string list \<Rightarrow> html_node \<Rightarrow> html_node list" where
  "find_all names node = filter (has_name names) (descendants node)"

text \<open>\<open>tag.get_text()\<close> of a paragraph, a heading, a table cell or a link: the
  strings below it, those of the constructor \<open>Comment\<close> left out, in document
  order.\<close>

fun get_text :: "html_node \<Rightarrow> string" where
  "get_text (NavigableString s) = s"
| "get_text (Comment s) = []"
| "get_text (Tag name attrs contents) = concat (map get_text contents)"

text \<open>\<open>tag.get(key)\<close>, \<open>tag.get(key, default)\<close> and \<open>tag['content']\<close>, whose
  \<open>KeyError\<close> prints as the key between quotes.\<close>

fun tag_get :: "html_node \<Rightarrow> string \<Rightarrow> string option" where
  "tag_get (NavigableString s) key = None"
| "tag_get (Comment s) key = None"
| "tag_get (Tag name attrs contents) key = map_of attrs key"

definition tag_get_default :: "html_node \<Rightarrow> string \<Rightarrow> string \<Rightarrow> string" where
  "tag_get_default tag key dflt = (case tag_get tag key of None \<Rightarrow> dflt | Some v \<Rightarrow> v)"

definition tag_content :: "html_node \<Rightarrow> py_exception + string" where
  "tag_content tag =
     (case tag_get tag ''content'' of
        None \<Rightarrow> Inl (KeyError ([CHR 0x27] @ ''content'' @ [CHR 0x27]))
      | Some v \<Rightarrow> Inr v)"

text \<open>\<open>tag.string\<close>: the only child if it is a string, that child's \<open>.string\<close> if it
  is a tag, \<open>None\<close> otherwise.\<close>

fun tag_string :: "html_node \<Rightarrow> string option" where
  "tag_string (NavigableString s) = Some s"
| "tag_string (Comment s) = Some s"
| "tag_string (Tag name attrs [c]) = tag_string c"
| "tag_string (Tag name attrs contents) = None"

text \<open>\<open>soup.title.string if soup.title else ''\<close>.\<close>

definition soup_title :: "html_node \<Rightarrow> string option" where
  "soup_title soup =
     (case find (has_name [''title'']) (descendants soup) of
        None \<Rightarrow> Some []
      | Some title \<Rightarrow> tag_string title)"

text \<open>\<open>soup.find('meta', {'name': n})['content'] if soup.find('meta', {'name': n}) else ''\<close>.\<close>

definition soup_meta :: "html_node \<Rightarrow> string \<Rightarrow> py_exception + string" where
  "soup_meta soup n =
     (case find (\<lambda>t. has_name [''meta''] t \<and> tag_get t ''name'' = Some n) (descendants soup) of
        None \<Rightarrow> Inr []
      | Some meta \<Rightarrow> tag_content meta)"

subsection \<open>The network\<close>

text \<open>
  A fetched page: status line, the parse of its body, \<open>str(soup)\<close>, and what
  \<open>str()\<close> gives for the \<open>ClientResponseError\<close> of this response (status,
  message and URL, as aiohttp prints them). A Diffbot reply: its status, the same
  for its error, and what \<open>response.json()\<close> gives, the value of the key
  \<open>objects\<close> (\<open>None\<close> when the key is absent or its value is \<open>null\<close>) or an
  exception.
\<close>

record http_response =
  resp_status :: nat
  resp_reason :: string
  resp_soup :: html_node
  resp_markup :: string
  resp_error :: string

text \<open>
  A field of an article is \<open>None\<close> when the key is absent, \<open>Some None\<close> when the
  key is there with the value \<open>null\<close>, and the value otherwise.
\<close>

record diffbot_article =
  da_text :: "string option option"
  da_title :: "string option option"
  da_images :: "json list option option"
  da_links :: "json list option option"
  da_html :: "string option option"
  da_author :: "string option option"
  da_date :: "string option option"
  da_siteName :: "string option option"

record diffbot_response =
  dr_status :: nat
  dr_error :: string
  dr_json :: "py_exception + diffbot_article list option"

text \<open>
  \<open>http_get\<close> is \<open>session.get(url, headers=...)\<close> with the text of the body read,
  \<open>diffbot_get token url\<close> is the request to the article API; either raises or
  answers. \<open>urljoin\<close>, the MD5 hex digest, \<open>json.dumps\<close> and the two renderings of
  \<open>datetime.now()\<close> are the libraries'.
\<close>

record web_env =
  http_get :: "string \<Rightarrow> py_exception + http_response"
  diffbot_get :: "string \<Rightarrow> string \<Rightarrow> py_exception + diffbot_response"
  urljoin :: "string \<Rightarrow> string \<Rightarrow> string"
  md5_hexdigest :: "string \<Rightarrow> string"
  web_json_dumps :: "json \<Rightarrow> string"
  web_now_strftime :: string
  web_now_isoformat :: string

text \<open>\<open>response.raise_for_status()\<close> raises \<open>ClientResponseError\<close>, a
  \<open>ClientError\<close>, from status 400 on.\<close>

definition raise_for_status :: "nat \<Rightarrow> string \<Rightarrow> py_exception + unit" where
  "raise_for_status status error =
     (if 400 \<le> status then Inl (ClientError error) else Inr ())"

subsection \<open>The loops shared by both BeautifulSoup routines\<close>

fun text_loop :: "html_node list \<Rightarrow> string list" where
  "text_loop [] = []"
| "text_loop (p # rest) =
     (let text = strip (get_text p)
      in (if text \<noteq> [] then [text] else []) @ text_loop rest)"

definition absolute :: "web_env \<Rightarrow> string \<Rightarrow> string \<Rightarrow> string" where
  "absolute env url src =
     (if \<not> (startswith src ''http://'' \<or> startswith src ''https://'')
      then urljoin env url src else src)"

fun images_loop :: "web_env \<Rightarrow> string \<Rightarrow> html_node list \<Rightarrow> json list" where
  "images_loop env url [] = []"
| "images_loop env url (img # rest) =
     (case tag_get img ''src'' of
        None \<Rightarrow> []
      | Some src \<Rightarrow>
          (if src \<noteq> []
           then [JDict [(''url'', JStr (absolute env url src)),
                        (''alt'', JStr (tag_get_default img ''alt'' [])),
                        (''title'', JStr (tag_get_default img ''title'' []))]]
           else []))
     @ images_loop env url rest"

fun links_loop :: "web_env \<Rightarrow> string \<Rightarrow> html_node list \<Rightarrow> json list" where
  "links_loop env url [] = []"
| "links_loop env url (link # rest) =
     (case tag_get link ''href'' of
        None \<Rightarrow> []
      | Some href \<Rightarrow>
          (if href \<noteq> []
           then [JDict [(''url'', JStr (absolute env url href)),
                        (''text'', JStr (strip (get_text link)))]]
           else []))
     @ links_loop env url rest"

definition heading_names :: "string list" where
  "heading_names = [''p'', ''h1'', ''h2'', ''h3'', ''h4'', ''h5'', ''h6'']"

subsection \<open>The local web adapter (\<open>extract_web_opensource.py\<close>)\<close>

fun rows_loop :: "html_node list \<Rightarrow> string list list" where
  "rows_loop [] = []"
| "rows_loop (row # rest) =
     (let row_data = map (\<lambda>cell. strip (get_text cell)) (find_all [''td'', ''th''] row)
      in (if row_data \<noteq> [] then [row_data] else []) @ rows_loop rest)"

fun tables_loop :: "html_node list \<Rightarrow> string list list list" where
  "tables_loop [] = []"
| "tables_loop (table # rest) =
     (let table_data = rows_loop (find_all [''tr''] table)
      in (if table_data \<noteq> [] then [table_data] else []) @ tables_loop rest)"

record page_metadata =
  pm_title :: "string option"
  pm_url :: string
  pm_description :: string
  pm_keywords :: string

record local_content =
  lc_text_content :: "string list"
  lc_tables :: "string list list list"
  lc_images :: "json list"
  lc_links :: "json list"
  lc_metadata :: page_metadata

text \<open>\<open>WebProcessor._extract_content\<close>: the handler logs and re-raises.\<close>

definition WebProcessor_extract_content :: "web_env \<Rightarrow> string \<Rightarrow> py_exception + local_content" where
  "WebProcessor_extract_content env url =
     (case http_get env url of
        Inl e \<Rightarrow> Inl e
      | Inr response \<Rightarrow>
          (if resp_status response \<noteq> 200
           then Inl (Exception (''HTTP Error '' @ str_nat (resp_status response) @ '': ''
                                 @ resp_reason response))
           else
             (let soup = resp_soup response;
                  text_content = text_loop (find_all heading_names soup);
                  tables = tables_loop (find_all [''table''] soup);
                  images = images_loop env url (find_all [''img''] soup);
                  links = links_loop env url (find_all [''a''] soup)
              in case soup_meta soup ''description'' of
                   Inl e \<Rightarrow> Inl e
                 | Inr description \<Rightarrow>
                     (case soup_meta soup ''keywords'' of
                        Inl e \<Rightarrow> Inl e
                      | Inr keywords \<Rightarrow>
                          Inr \<lparr>lc_text_content = text_content, lc_tables = tables,
                               lc_images = images, lc_links = links,
                               lc_metadata = \<lparr>pm_title = soup_title soup, pm_url = url,
                                               pm_description = description,
                                               pm_keywords = keywords\<rparr>\<rparr>))))"

definition json_of_str_option :: "string option \<Rightarrow> json" where
  "json_of_str_option v = (case v of None \<Rightarrow> JNull | Some s \<Rightarrow> JStr s)"

definition page_metadata_json :: "page_metadata \<Rightarrow> json" where
  "page_metadata_json m = JDict
     [(''title'', json_of_str_option (pm_title m)), (''url'', JStr (pm_url m)),
      (''description'', JStr (pm_description m)), (''keywords'', JStr (pm_keywords m))]"

text \<open>\<open>WebProcessor._store_content\<close>: two-argument uploads; any exception gives \<open>{}\<close>.\<close>

definition WebProcessor_store_try ::
  "web_env \<Rightarrow> 's storage_client option \<Rightarrow> local_content \<Rightarrow> string
     \<Rightarrow> 's \<Rightarrow> (py_exception + string dict) \<times> 's" where
  "WebProcessor_store_try env storage_client content doc_id =
     (let base_folder = ''Web/Opensource/'' @ doc_id in
      case storage_client of
        None \<Rightarrow> returns []
      | Some upload \<Rightarrow>
          (let text_content = join [CHR 0x0A, CHR 0x0A] (lc_text_content content);
               text_key = base_folder @ ''/text_content.txt''
           in and_then (upload (Bytes text_content) text_key None) (\<lambda>_.
              let metadata_key = base_folder @ ''/metadata.json'';
                  metadata_json = web_json_dumps env (page_metadata_json (lc_metadata content))
              in and_then (upload (Bytes metadata_json) metadata_key None) (\<lambda>_.
                 returns [(''text'', text_key), (''metadata'', metadata_key)]))))"

definition WebProcessor_store_content ::
  "web_env \<Rightarrow> 's storage_client option \<Rightarrow> local_content \<Rightarrow> string
     \<Rightarrow> 's \<Rightarrow> (py_exception + string dict) \<times> 's" where
  "WebProcessor_store_content env storage_client content doc_id s =
     (case WebProcessor_store_try env storage_client content doc_id s of
        (Inl e, s') \<Rightarrow> (Inr [], s')
      | (Inr storage_paths, s') \<Rightarrow> (Inr storage_paths, s'))"

subsection \<open>What \<open>process_webpage\<close> returns\<close>

text \<open>
  The two processors return dictionaries with different keys: one constructor for
  each dictionary literal, with its keys. A value of the cloud processor's
  dictionary is \<open>None\<close> when Python's is: a title when \<open>.string\<close> is, any of them
  when Diffbot sends \<open>null\<close>.
\<close>

datatype web_content =
    is_Enterprise_content: Enterprise_content
      (wc_text: "string option") (wc_title: "string option")
      (wc_images: "json list option") (wc_links: "json list option")
  | is_Opensource_content: Opensource_content
      (wc_text_list: "string list") (wc_tables: "string list list list")
      (wc_image_list: "json list") (wc_link_list: "json list")

datatype web_metadata =
    Enterprise_metadata
      (wm_url: string) (wm_processor: string) (wm_timestamp: string)
      (wm_storage_paths: "string dict")
  | Opensource_metadata
      (wm_url: string) (wm_title: "string option") (wm_description: string)
      (wm_keywords: string) (wm_storage_paths: "string dict")
      (wm_processor: string) (wm_timestamp: string)

record web_response =
  wr_status :: string
  wr_message :: string
  wr_document_id :: string
  wr_timestamp :: string
  wr_content :: web_content
  wr_metadata :: web_metadata

definition WebProcessor_generate_document_id :: "web_env \<Rightarrow> string \<Rightarrow> string" where
  "WebProcessor_generate_document_id env url =
     ''web_os_'' @ take 8 (md5_hexdigest env url) @ ''_'' @ web_now_strftime env"

text \<open>\<open>WebProcessor.process_webpage\<close>: the handler logs and re-raises.\<close>

definition WebProcessor_process_webpage ::
  "web_env \<Rightarrow> 's storage_client option \<Rightarrow> string \<Rightarrow> 's \<Rightarrow> (py_exception + web_response) \<times> 's" where
  "WebProcessor_process_webpage env storage_client url s =
     (let doc_id = WebProcessor_generate_document_id env url;
          timestamp = web_now_isoformat env
      in case WebProcessor_extract_content env url of
           Inl e \<Rightarrow> (Inl e, s)
         | Inr content \<Rightarrow>
             (case (case storage_client of
                      None \<Rightarrow> returns [] s
                    | Some upload \<Rightarrow> WebProcessor_store_content env storage_client content doc_id s) of
                (Inl e, s') \<Rightarrow> (Inl e, s')
              | (Inr storage_paths, s') \<Rightarrow>
                  (Inr \<lparr>wr_status = ''success'',
                        wr_message = ''Webpage processed successfully'',
                        wr_document_id = doc_id,
                        wr_timestamp = timestamp,
                        wr_content =
                          Opensource_content (lc_text_content content) (lc_tables content)
                            (lc_images content) (lc_links content),
                        wr_metadata =
                          Opensource_metadata url (pm_title (lc_metadata content))
                            (pm_description (lc_metadata content))
                            (pm_keywords (lc_metadata content))
                            storage_paths ''BeautifulSoup'' timestamp\<rparr>, s')))"

subsection \<open>The cloud web adapter (\<open>extract_web_enterprise.py\<close>)\<close>

text \<open>
  What \<open>_extract_content_diffbot\<close> and \<open>_extract_content_fallback\<close> return. The
  value of a key is the Python value \<open>None\<close> (here \<open>None\<close>) or a string or list
  (here \<open>Some\<close>); the last three keys are absent (\<open>None\<close>) in the fallback's
  dictionary and nothing reads them.
\<close>

record enterprise_content =
  ec_text :: "string option"
  ec_title :: "string option"
  ec_imgs :: "json list option"
  ec_links :: "json list option"
  ec_html :: "string option"
  ec_author :: "string option option"
  ec_date :: "string option option"
  ec_siteName :: "string option option"

text \<open>\<open>_extract_content_fallback\<close>: the handler logs and re-raises.\<close>

definition WebEnterpriseProcessor_extract_content_fallback :: "web_env \<Rightarrow> string \<Rightarrow> py_exception + enterprise_content" where
  "WebEnterpriseProcessor_extract_content_fallback env url =
     (case http_get env url of
        Inl e \<Rightarrow> Inl e
      | Inr response \<Rightarrow>
          (case raise_for_status (resp_status response) (resp_error response) of
             Inl e \<Rightarrow> Inl e
           | Inr _ \<Rightarrow>
               (let soup = resp_soup response;
                    text_content = text_loop (find_all heading_names soup);
                    images = images_loop env url (find_all [''img''] soup);
                    links = links_loop env url (find_all [''a''] soup)
                in Inr \<lparr>ec_text = Some (join [CHR 0x0A] text_content),
                         ec_title = soup_title soup,
                         ec_imgs = Some images, ec_links = Some links,
                         ec_html = Some (resp_markup response),
                         ec_author = None, ec_date = None, ec_siteName = None\<rparr>)))"

text \<open>\<open>article.get(key, default)\<close>: the default when the key is absent, the value
  otherwise, \<open>None\<close> for \<open>null\<close>.\<close>

definition get_or :: "'a option \<Rightarrow> 'a \<Rightarrow> 'a" where
  "get_or v dflt = (case v of None \<Rightarrow> dflt | Some x \<Rightarrow> x)"

text \<open>
  \<open>_extract_content_diffbot\<close>. The body of the \<open>try\<close> holds the request, the status
  check, the decoding and the fallback for a reply without objects; a
  \<open>ClientError\<close> raised anywhere in it leads to the fallback, any other exception is
  re-raised.
\<close>

definition diffbot_try :: "web_env \<Rightarrow> string \<Rightarrow> string \<Rightarrow> py_exception + enterprise_content" where
  "diffbot_try env token url =
     (case diffbot_get env token url of
        Inl e \<Rightarrow> Inl e
      | Inr response \<Rightarrow>
          (case raise_for_status (dr_status response) (dr_error response) of
             Inl e \<Rightarrow> Inl e
           | Inr _ \<Rightarrow>
               (case dr_json response of
                  Inl e \<Rightarrow> Inl e
                | Inr None \<Rightarrow> WebEnterpriseProcessor_extract_content_fallback env url
                | Inr (Some []) \<Rightarrow> WebEnterpriseProcessor_extract_content_fallback env url
                | Inr (Some (article # _)) \<Rightarrow>
                    Inr \<lparr>ec_text = get_or (da_text article) (Some []),
                         ec_title = get_or (da_title article) (Some []),
                         ec_imgs = get_or (da_images article) (Some []),
                         ec_links = get_or (da_links article) (Some []),
                         ec_html = get_or (da_html article) (Some []),
                         ec_author = Some (get_or (da_author article) (Some [])),
                         ec_date = Some (get_or (da_date article) (Some [])),
                         ec_siteName = Some (get_or (da_siteName article) (Some []))\<rparr>)))"

definition WebEnterpriseProcessor_extract_content_diffbot :: "web_env \<Rightarrow> string \<Rightarrow> string \<Rightarrow> py_exception + enterprise_content" where
  "WebEnterpriseProcessor_extract_content_diffbot env token url =
     (case diffbot_try env token url of
        Inl e \<Rightarrow> (if is_ClientError e then WebEnterpriseProcessor_extract_content_fallback env url else Inl e)
      | Inr content \<Rightarrow> Inr content)"

text \<open>\<open>v.encode('utf-8')\<close> and \<open>len(v)\<close> of a value that may be \<open>None\<close>.\<close>

definition encode :: "string option \<Rightarrow> py_exception + bytes" where
  "encode v =
     (case v of
        None \<Rightarrow> Inl (AttributeError ([CHR 0x27] @ ''NoneType'' @ [CHR 0x27]
                       @ '' object has no attribute '' @ [CHR 0x27] @ ''encode'' @ [CHR 0x27]))
      | Some s \<Rightarrow> Inr s)"

definition len :: "'a list option \<Rightarrow> py_exception + nat" where
  "len v =
     (case v of
        None \<Rightarrow> Inl (TypeError (''object of type '' @ [CHR 0x27] @ ''NoneType'' @ [CHR 0x27]
                       @ '' has no len()''))
      | Some xs \<Rightarrow> Inr (length xs))"

text \<open>\<open>WebEnterpriseProcessor._store_content\<close>: any exception gives \<open>{}\<close>.\<close>

definition WebEnterpriseProcessor_store_try ::
  "web_env \<Rightarrow> 's storage_client option \<Rightarrow> enterprise_content \<Rightarrow> string
     \<Rightarrow> 's \<Rightarrow> (py_exception + string dict) \<times> 's" where
  "WebEnterpriseProcessor_store_try env storage_client content doc_id =
     (let base_folder = ''Web/Enterprise/'' @ doc_id in
      case storage_client of
        None \<Rightarrow> returns []
      | Some upload \<Rightarrow>
          (let text_key = base_folder @ ''/content.txt'' in
           and_then (evaluates (encode (ec_text content))) (\<lambda>text.
           and_then (upload (BytesIO text 0) text_key (Some ''text/plain'')) (\<lambda>_.
           let html_key = base_folder @ ''/content.html'' in
           and_then (evaluates (encode (ec_html content))) (\<lambda>html.
           and_then (upload (BytesIO html 0) html_key (Some ''text/html'')) (\<lambda>_.
           and_then (evaluates (len (ec_imgs content))) (\<lambda>image_count.
           and_then (evaluates (len (ec_links content))) (\<lambda>link_count.
           let metadata = JDict [(''title'', json_of_str_option (ec_title content)),
                                 (''image_count'', JInt (int image_count)),
                                 (''link_count'', JInt (int link_count))];
               metadata_key = base_folder @ ''/metadata.json''
           in and_then (upload (BytesIO (web_json_dumps env metadata) 0) metadata_key
                          (Some ''application/json'')) (\<lambda>_.
              returns [(''text'', text_key), (''html'', html_key),
                       (''metadata'', metadata_key)])))))))))"

definition WebEnterpriseProcessor_store_content ::
  "web_env \<Rightarrow> 's storage_client option \<Rightarrow> enterprise_content \<Rightarrow> string
     \<Rightarrow> 's \<Rightarrow> (py_exception + string dict) \<times> 's" where
  "WebEnterpriseProcessor_store_content env storage_client content doc_id s =
     (case WebEnterpriseProcessor_store_try env storage_client content doc_id s of
        (Inl e, s') \<Rightarrow> (Inr [], s')
      | (Inr storage_paths, s') \<Rightarrow> (Inr storage_paths, s'))"

definition WebEnterpriseProcessor_generate_document_id :: "web_env \<Rightarrow> string \<Rightarrow> string" where
  "WebEnterpriseProcessor_generate_document_id env url =
     ''web_enterprise_'' @ take 8 (md5_hexdigest env url) @ ''_'' @ web_now_strftime env"

text \<open>
  \<open>WebEnterpriseProcessor.process_webpage\<close>; \<open>diffbot_token\<close> is
  \<open>os.getenv("DIFFBOT_TOKEN")\<close>. The handler logs and re-raises.
\<close>

definition WebEnterpriseProcessor_process_webpage ::
  "string option \<Rightarrow> web_env \<Rightarrow> 's storage_client option \<Rightarrow> string
     \<Rightarrow> 's \<Rightarrow> (py_exception + web_response) \<times> 's" where
  "WebEnterpriseProcessor_process_webpage diffbot_token env storage_client url s =
     (let doc_id = WebEnterpriseProcessor_generate_document_id env url;
          timestamp = web_now_isoformat env
      in case (if \<not> falsy diffbot_token
               then WebEnterpriseProcessor_extract_content_diffbot env (the diffbot_token) url
               else WebEnterpriseProcessor_extract_content_fallback env url) of
           Inl e \<Rightarrow> (Inl e, s)
         | Inr content \<Rightarrow>
             (case (case storage_client of
                      None \<Rightarrow> returns [] s
                    | Some upload \<Rightarrow>
                        WebEnterpriseProcessor_store_content env storage_client content doc_id s) of
                (Inl e, s') \<Rightarrow> (Inl e, s')
              | (Inr storage_paths, s') \<Rightarrow>
                  (Inr \<lparr>wr_status = ''success'',
                        wr_message = ''Webpage processed successfully'',
                        wr_document_id = doc_id,
                        wr_timestamp = timestamp,
                        wr_content =
                          Enterprise_content (ec_text content) (ec_title content)
                            (ec_imgs content) (ec_links content),
                        wr_metadata =
                          Enterprise_metadata url
                            (if \<not> falsy diffbot_token then ''Diffbot''
                             else ''BeautifulSoup (fallback)'')
                            timestamp storage_paths\<rparr>, s')))"

section \<open>The storage handler (\<open>s3.py\<close>)\<close>

text \<open>
  The S3 client: the objects it holds, by bucket and key, and for which bucket and
  key \<open>upload_fileobj\<close> raises (credentials, network, permissions).
\<close>

record s3_object =
  obj_body :: bytes
  obj_content_type :: string

record s3_client =
  s3_objects :: "string \<times> string \<Rightarrow> s3_object option"
  s3_raises :: "string \<times> string \<Rightarrow> py_exception option"

record storage_handler =
  sh_s3_client :: s3_client
  sh_bucket_name :: string

text \<open>
  \<open>s3_client.upload_fileobj(Fileobj, Bucket, Key, ExtraArgs={'ContentType': ...})\<close>:
  a file object is read from its position to its end; anything without \<open>read\<close> is
  refused with \<open>ValueError\<close>.
\<close>

definition upload_fileobj ::
  "file_data \<Rightarrow> string \<Rightarrow> string \<Rightarrow> string \<Rightarrow> s3_client \<Rightarrow> (py_exception + unit) \<times> s3_client" where
  "upload_fileobj fileobj bucket key content_type s3 =
     (case fileobj of
        BytesIO buffer pos \<Rightarrow>
          (case s3_raises s3 (bucket, key) of
             Some e \<Rightarrow> (Inl e, s3)
           | None \<Rightarrow>
               (Inr (), s3\<lparr>s3_objects := (s3_objects s3)((bucket, key) \<mapsto>
                             \<lparr>obj_body = drop pos buffer, obj_content_type = content_type\<rparr>)\<rparr>))
      | _ \<Rightarrow> (Inl (ValueError ''Fileobj must implement read''), s3))"

text \<open>\<open>hasattr(file_data, 'seek')\<close> and \<open>file_data.seek(0)\<close>.\<close>

fun seek0 :: "file_data \<Rightarrow> file_data" where
  "seek0 (BytesIO buffer pos) = BytesIO buffer 0"
| "seek0 other = other"

text \<open>
  \<open>StorageHandler.upload\<close>; \<open>dumps\<close> is \<open>json.dumps\<close>, which raises
  \<open>TypeError\<close> on a value it cannot serialise. The handler logs and re-raises.
\<close>

definition StorageHandler_upload ::
  "(json \<Rightarrow> py_exception + string) \<Rightarrow> file_data \<Rightarrow> string \<Rightarrow> string
     \<Rightarrow> storage_handler \<Rightarrow> (py_exception + string) \<times> storage_handler" where
  "StorageHandler_upload dumps file_data file_path content_type self =
     (case (case file_data of
              Dict d \<Rightarrow>
                (case dumps d of
                   Inl e \<Rightarrow> Inl e
                 | Inr text \<Rightarrow> Inr (BytesIO text 0, ''application/json''))
            | _ \<Rightarrow> Inr (file_data, content_type)) of
        Inl e \<Rightarrow> (Inl e, self)
      | Inr (file_data', content_type') \<Rightarrow>
          (case upload_fileobj (seek0 file_data') (sh_bucket_name self) file_path content_type'
                  (sh_s3_client self) of
             (Inl e, s3') \<Rightarrow> (Inl e, self\<lparr>sh_s3_client := s3'\<rparr>)
           | (Inr _, s3') \<Rightarrow> (Inr file_path, self\<lparr>sh_s3_client := s3'\<rparr>)))"

text \<open>
  The handler as the storage client of a processor, as \<open>fast_api.py\<close> wires it:
  \<open>content_type\<close> has no default, so a two-argument call raises \<open>TypeError\<close>.
\<close>

definition StorageHandler_client ::
  "(json \<Rightarrow> py_exception + string) \<Rightarrow> storage_handler storage_client" where
  "StorageHandler_client dumps file_data file_path content_type self =
     (case content_type of
        None \<Rightarrow>
          (Inl (TypeError (''StorageHandler.upload() missing 1 required positional argument: ''
                           @ [CHR 0x27] @ ''content_type'' @ [CHR 0x27])), self)
      | Some ct \<Rightarrow> StorageHandler_upload dumps file_data file_path ct self)"

section \<open>Concrete inputs\<close>

text \<open>
  A PDF of three pages, the second one blank (an ideographic space, U+3000, and a
  line feed), with one embedded image on the first page; the analysis the cloud
  service returns for it, with a table whose only cell spans both of its rows.
\<close>

definition example_doc :: pdf_doc where
  "example_doc =
     \<lparr>doc_pages =
        [\<lparr>page_get_text = ''Hello'',
          page_get_images = [Inr (Some \<lparr>bi_image = ''IMG'', bi_ext = ''png''\<rparr>)]\<rparr>,
         \<lparr>page_get_text = [CHR 0xE3, CHR 0x80, CHR 0x80, CHR 0x0A], page_get_images = []\<rparr>,
         \<lparr>page_get_text = ''World'', page_get_images = []\<rparr>],
      doc_metadata = [(''title'', ''Example'')]\<rparr>"

definition spanning_table :: document_table where
  "spanning_table =
     \<lparr>row_count = 2, column_count = 1,
      cells = [\<lparr>row_index = 0, column_index = 0, cell_content = ''a''\<rparr>]\<rparr>"

definition example_analysis :: analyze_result where
  "example_analysis =
     \<lparr>ar_pages = [\<lparr>page_lines = [''Hello'']\<rparr>, \<lparr>page_lines = []\<rparr>,
                  \<lparr>page_lines = [''World'']\<rparr>],
      ar_tables = [spanning_table],
      ar_key_value_pairs = []\<rparr>"

definition example_pdf_env :: pdf_env where
  "example_pdf_env =
     \<lparr>fitz_open = (\<lambda>file_path. Inr example_doc),
      azure_analyze = (\<lambda>file_path. Inr example_analysis),
      getsize = (\<lambda>file_path. 1024),
      json_dumps = (\<lambda>j. ''{}''),
      to_csv = (\<lambda>t. []),
      now_strftime = ''20250101_000000'',
      now_isoformat = ''2025-01-01T00:00:00''\<rparr>"

text \<open>A storage client that is down: every upload raises.\<close>

definition failing_client :: "unit storage_client" where
  "failing_client file_data key content_type s = (Inl (Exception ''S3 is unreachable''), s)"

text \<open>The cloud PDF processor with its credentials configured.\<close>

definition azure_processor :: pdf_enterprise_processor where
  "azure_processor = PDFEnterpriseProcessor_init (Some ''https://di.example'') (Some ''key'') True"

text \<open>
  A page with two paragraphs, the first one holding a comment, and a paragraph of a
  no-break space (U+00A0) only, and a table whose rows have two cells, one cell
  (its text between a no-break space and a space) and no cell; a URL that is gone;
  a Diffbot API that answers every request with an empty list of objects.
\<close>

definition example_soup :: html_node where
  "example_soup =
     Tag ''[document]'' []
       [Tag ''html'' []
          [Tag ''head'' [] [Tag ''title'' [] [NavigableString ''T'']],
           Tag ''body'' []
             [Tag ''p'' [] [NavigableString ''A'', Comment ''draft''],
              Tag ''p'' [] [NavigableString [CHR 0xC2, CHR 0xA0]],
              Tag ''p'' [] [NavigableString ''B''],
              Tag ''table'' []
                [Tag ''tr'' [] [Tag ''td'' [] [NavigableString ''a''],
                                Tag ''td'' [] [NavigableString ''b'']],
                 Tag ''tr'' [] [Tag ''td'' [] [NavigableString ([CHR 0xC2, CHR 0xA0] @ ''c '')]],
                 Tag ''tr'' [] []]]]]"

definition example_web_env :: web_env where
  "example_web_env =
     \<lparr>http_get = (\<lambda>url.
        if url = ''http://gone.example/''
        then Inr \<lparr>resp_status = 404, resp_reason = ''Not Found'',
                  resp_soup = Tag ''[document]'' [] [], resp_markup = [],
                  resp_error = ''404, message='Not Found', url=URL('http://gone.example/')''\<rparr>
        else Inr \<lparr>resp_status = 200, resp_reason = ''OK'',
                  resp_soup = example_soup, resp_markup = ''<html>'',
                  resp_error = ''200, message='OK', url=URL('http://example.com/')''\<rparr>),
      diffbot_get = (\<lambda>token url.
        Inr \<lparr>dr_status = 200,
             dr_error = ''200, message='OK', url=URL('https://api.diffbot.com/v3/article')'',
             dr_json = Inr (Some [])\<rparr>),
      urljoin = (\<lambda>base rel. base @ rel),
      md5_hexdigest = (\<lambda>s. ''0123456789abcdef0123456789abcdef''),
      web_json_dumps = (\<lambda>j. ''{}''),
      web_now_strftime = ''20250101_000000'',
      web_now_isoformat = ''2025-01-01T00:00:00''\<rparr>"

text \<open>An empty bucket that accepts every upload, and a serialiser for one dictionary.\<close>

definition example_handler :: storage_handler where
  "example_handler =
     \<lparr>sh_s3_client = \<lparr>s3_objects = (\<lambda>k. None), s3_raises = (\<lambda>k. None)\<rparr>,
      sh_bucket_name = ''bucket''\<rparr>"

definition example_dumps :: "json \<Rightarrow> py_exception + string" where
  "example_dumps j =
     (if j = JDict [(''pages'', JInt 3)] then Inr ''{\"pages\": 3}''
      else Inl (TypeError ''Object is not JSON serializable''))"

text \<open>A table of two rows and three columns with every cell reported.\<close>

definition full_table :: document_table where
  "full_table =
     \<lparr>row_count = 2, column_count = 3,
      cells = [\<lparr>row_index = 0, column_index = 0, cell_content = ''c00''\<rparr>,
               \<lparr>row_index = 0, column_index = 1, cell_content = ''c01''\<rparr>,
               \<lparr>row_index = 0, column_index = 2, cell_content = ''c02''\<rparr>,
               \<lparr>row_index = 1, column_index = 0, cell_content = ''c10''\<rparr>,
               \<lparr>row_index = 1, column_index = 1, cell_content = ''c11''\<rparr>,
               \<lparr>row_index = 1, column_index = 2, cell_content = ''c12''\<rparr>]\<rparr>"

text \<open>A table is rectangular when all its rows have the same length.\<close>

definition rectangular :: "'a list list \<Rightarrow> bool" where
  "rectangular t = (\<forall>row \<in> set t. \<forall>row' \<in> set t. length row = length row')"

text \<open>A Diffbot API that times out.\<close>

definition timeout_web_env :: web_env where
  "timeout_web_env =
     example_web_env\<lparr>diffbot_get := (\<lambda>token url. Inl (TimeoutError ''timed out''))\<rparr>"

section \<open>Properties of \<open>strip\<close>\<close>

lemma drop_leading_none:
  "find (\<lambda>w. w \<noteq> [] \<and> startswith (drop_leading ws s) w) ws = None"
proof (induction ws s rule: drop_leading.induct)
  case (1 ws s)
  show ?case
  proof (cases "find (\<lambda>w. w \<noteq> [] \<and> startswith s w) ws")
    case None
    then show ?thesis by (simp add: drop_leading.simps[of ws s])
  next
    case (Some w)
    then show ?thesis using 1[OF Some] by (simp add: drop_leading.simps[of ws s])
  qed
qed

lemma drop_leading_fixed:
  "find (\<lambda>w. w \<noteq> [] \<and> startswith s w) ws = None \<Longrightarrow> drop_leading ws s = s"
  by (simp add: drop_leading.simps[of ws s])

lemma drop_leading_suffix: "\<exists>p. s = p @ drop_leading ws s"
proof (induction ws s rule: drop_leading.induct)
  case (1 ws s)
  show ?case
  proof (cases "find (\<lambda>w. w \<noteq> [] \<and> startswith s w) ws")
    case None
    then show ?thesis by (simp add: drop_leading.simps[of ws s])
  next
    case (Some w)
    from 1[OF Some] obtain p where p: "drop (length w) s = p @ drop_leading ws (drop (length w) s)"
      by blast
    have "s = take (length w) s @ drop (length w) s" by simp
    also have "\<dots> = (take (length w) s @ p) @ drop_leading ws (drop (length w) s)"
      using p by simp
    finally have "s = (take (length w) s @ p) @ drop_leading ws s"
      using Some by (simp add: drop_leading.simps[of ws s])
    then show ?thesis by (rule exI)
  qed
qed

lemma startswith_append: "startswith u w \<Longrightarrow> startswith (u @ v) w"
proof -
  assume w: "startswith u w"
  then have "length (take (length w) u) = length w" by (simp add: startswith_def)
  then have "length w \<le> length u" by simp
  with w show ?thesis by (simp add: startswith_def)
qed

text \<open>Stripping a stripped string changes nothing.\<close>

lemma strip_idem: "strip (strip s) = strip s"
proof -
  define t where "t = lstrip s"
  define u where "u = rstrip t"
  have t_none: "find (\<lambda>w. w \<noteq> [] \<and> startswith t w) whitespace = None"
    unfolding t_def lstrip_def by (rule drop_leading_none)
  obtain p where p: "rev t = p @ drop_leading (map rev whitespace) (rev t)"
    using drop_leading_suffix by blast
  have t_u: "t = u @ rev p"
    using arg_cong[OF p, of rev] by (simp add: u_def rstrip_def)
  have u_none: "find (\<lambda>w. w \<noteq> [] \<and> startswith u w) whitespace = None"
  proof -
    have "\<not> (w \<noteq> [] \<and> startswith u w)" if "w \<in> set whitespace" for w
    proof
      assume "w \<noteq> [] \<and> startswith u w"
      then have "w \<noteq> [] \<and> startswith t w" unfolding t_u by (simp add: startswith_append)
      with that t_none show False by (auto simp: find_None_iff)
    qed
    then show ?thesis by (auto simp: find_None_iff)
  qed
  have "lstrip u = u" unfolding lstrip_def by (rule drop_leading_fixed[OF u_none])
  moreover have "rstrip u = u"
  proof -
    have "find (\<lambda>w. w \<noteq> [] \<and> startswith (rev u) w) (map rev whitespace) = None"
      unfolding u_def rstrip_def rev_rev_ident by (rule drop_leading_none)
    then show ?thesis unfolding rstrip_def by (simp add: drop_leading_fixed)
  qed
  ultimately show ?thesis by (simp add: strip_def u_def t_def)
qed

text \<open>The facts that evaluate \<open>strip\<close> on a given string.\<close>

lemmas strip_eval =
  strip_def lstrip_def rstrip_def whitespace_def drop_leading.simps startswith_def

text \<open>
  The no-break space and the ideographic space are stripped like the space; a
  zero-width space (U+200B) is no whitespace.
\<close>

lemma strip_unicode:
  "strip [CHR 0xC2, CHR 0xA0] = []"
  "strip [CHR 0xE3, CHR 0x80, CHR 0x80, CHR 0x0A] = []"
  "strip [CHR 0xC2, CHR 0xA0, CHR ''c'', CHR '' ''] = ''c''"
  "strip [CHR '' '', CHR ''x'', CHR '' '', CHR ''y'', CHR 0xE2, CHR 0x80, CHR 0x83, CHR 0x09] = ''x y''"
  "strip [CHR 0xE2, CHR 0x80, CHR 0x8B] = [CHR 0xE2, CHR 0x80, CHR 0x8B]"
  by (simp_all add: strip_eval)

lemma strip_examples:
  "strip ''Hello'' = ''Hello''"
  "strip ''World'' = ''World''"
  "strip ''A'' = ''A''"
  "strip ''B'' = ''B''"
  "strip ''a'' = ''a''"
  "strip ''b'' = ''b''"
  by (simp_all add: strip_eval)

section \<open>Properties of the local PDF adapter\<close>

lemma pages_loop_texts:
  "fst (pages_loop n ps) = filter (\<lambda>t. strip t \<noteq> []) (map page_get_text ps)"
  by (induction ps arbitrary: n) (simp_all add: Let_def split_beta)

lemma nonblank_le: "length (filter (\<lambda>t. strip t \<noteq> []) (map page_get_text ps)) \<le> length ps"
  using length_filter_le[of "\<lambda>t. strip t \<noteq> []" "map page_get_text ps"] by simp

lemma local_process_pdf_ok:
  assumes "fitz_open env file_path = Inr doc"
  shows "\<exists>r. fst (PDFProcessor_process_pdf env storage_client file_path s) = Inr r
             \<and> orc_text (or_content r) =
                 filter (\<lambda>t. strip t \<noteq> []) (map page_get_text (doc_pages doc))
             \<and> length (orc_text (or_content r)) \<le> length (doc_pages doc)
             \<and> md_page_count (orm_document (or_metadata r)) = length (doc_pages doc)"
  using assms
  by (simp add: PDFProcessor_process_pdf_def PDFProcessor_extract_content_def Let_def
        split_beta pages_loop_texts nonblank_le)

lemma pymupdf_ok:
  assumes "fitz_open env file_path = Inr doc"
  shows "\<exists>r. PDFEnterpriseProcessor_process_with_pymupdf env file_path = Inr r
           \<and> er_text_content r = filter (\<lambda>t. strip t \<noteq> []) (map page_get_text (doc_pages doc))
           \<and> length (er_text_content r) \<le> length (doc_pages doc)
           \<and> em_page_count (er_metadata r) = length (doc_pages doc)"
  using assms
  by (simp add: PDFEnterpriseProcessor_process_with_pymupdf_def Let_def split_beta pages_loop_texts nonblank_le)

lemma example_doc_nonblank:
  "filter (\<lambda>t. strip t \<noteq> []) (map page_get_text (doc_pages example_doc)) = [''Hello'', ''World'']"
  by (simp add: example_doc_def strip_examples strip_unicode)

text \<open>
  C5. For a PDF of \<open>N\<close> pages that PyMuPDF opens, the local adapter
  (\<open>PDFProcessor.process_pdf\<close>, whatever the storage client does) and the PyMuPDF
  routine of the cloud processor (\<open>_process_with_pymupdf\<close>) both return: the text
  entries are the extracted texts of exactly the pages whose text is not blank after
  stripping, in page order, so there are at most \<open>N\<close> of them, and the page count is
  \<open>N\<close>.
\<close>

theorem local_pdf_text_per_nonblank_page:
  assumes "fitz_open env file_path = Inr doc"
  shows "(\<exists>r. fst (PDFProcessor_process_pdf env storage_client file_path s) = Inr r
             \<and> orc_text (or_content r) =
                 filter (\<lambda>t. strip t \<noteq> []) (map page_get_text (doc_pages doc))
             \<and> length (orc_text (or_content r)) \<le> length (doc_pages doc)
             \<and> md_page_count (orm_document (or_metadata r)) = length (doc_pages doc))
       \<and> (\<exists>r. PDFEnterpriseProcessor_process_with_pymupdf env file_path = Inr r
             \<and> er_text_content r =
                 filter (\<lambda>t. strip t \<noteq> []) (map page_get_text (doc_pages doc))
             \<and> length (er_text_content r) \<le> length (doc_pages doc)
             \<and> em_page_count (er_metadata r) = length (doc_pages doc))"
  by (rule conjI[OF local_process_pdf_ok[OF assms] pymupdf_ok[OF assms]])

theorem local_pdf_text_per_nonblank_page_witness:
  "fitz_open example_pdf_env ''doc.pdf'' = Inr example_doc
   \<and> length (doc_pages example_doc) = 3
   \<and> (\<exists>r. fst (PDFProcessor_process_pdf example_pdf_env (Some failing_client) ''doc.pdf'' ()) = Inr r
          \<and> orc_text (or_content r) = [''Hello'', ''World'']
          \<and> length (orc_text (or_content r)) \<le> 3
          \<and> md_page_count (orm_document (or_metadata r)) = 3)
   \<and> (\<exists>r. PDFEnterpriseProcessor_process_with_pymupdf example_pdf_env ''doc.pdf'' = Inr r
          \<and> er_text_content r = [''Hello'', ''World'']
          \<and> length (er_text_content r) \<le> 3
          \<and> em_page_count (er_metadata r) = 3)"
proof -
  have opened: "fitz_open example_pdf_env ''doc.pdf'' = Inr example_doc"
    by (simp add: example_pdf_env_def)
  have three: "length (doc_pages example_doc) = 3"
    by (simp add: example_doc_def)
  show ?thesis
    using local_pdf_text_per_nonblank_page[OF opened, of "Some failing_client" "()"]
    unfolding example_doc_nonblank three
    using opened three by simp
qed

section \<open>Properties of the local web adapter\<close>

lemma text_loop_eq:
  "text_loop ps = filter (\<lambda>t. t \<noteq> []) (map (\<lambda>p. strip (get_text p)) ps)"
  by (induction ps) (simp_all add: Let_def)

lemma rows_loop_eq:
  "rows_loop rows = filter (\<lambda>row_data. row_data \<noteq> [])
     (map (\<lambda>row. map (\<lambda>cell. strip (get_text cell)) (find_all [''td'', ''th''] row)) rows)"
  by (induction rows) (simp_all add: Let_def)

lemma tables_loop_eq:
  "tables_loop tables = filter (\<lambda>table_data. table_data \<noteq> [])
     (map (\<lambda>table. rows_loop (find_all [''tr''] table)) tables)"
  by (induction tables) (simp_all add: Let_def)

lemma text_loop_nonblank: "x \<in> set (text_loop ps) \<Longrightarrow> strip x \<noteq> []"
  by (auto simp: text_loop_eq strip_idem)

lemma rows_loop_nonempty: "[] \<notin> set (rows_loop rows)"
  by (simp add: rows_loop_eq)

lemma tables_loop_nonempty: "[] \<notin> set (tables_loop tables)"
  by (simp add: tables_loop_eq)

lemma tables_loop_rows_nonempty: "t \<in> set (tables_loop tables) \<Longrightarrow> [] \<notin> set t"
  by (auto simp: tables_loop_eq rows_loop_nonempty)

lemma WebProcessor_extract_content_Inr:
  assumes "WebProcessor_extract_content env url = Inr c"
  shows "\<exists>response. http_get env url = Inr response \<and> resp_status response = 200
           \<and> lc_text_content c = text_loop (find_all heading_names (resp_soup response))
           \<and> lc_tables c = tables_loop (find_all [''table''] (resp_soup response))"
  using assms
  by (auto simp: WebProcessor_extract_content_def Let_def split: sum.splits if_splits)

lemma WebProcessor_process_webpage_Inr:
  assumes "fst (WebProcessor_process_webpage env storage_client url s) = Inr r"
  shows "\<exists>c. WebProcessor_extract_content env url = Inr c
           \<and> wr_content r = Opensource_content (lc_text_content c) (lc_tables c)
                               (lc_images c) (lc_links c)"
  using assms
  by (auto simp: WebProcessor_process_webpage_def Let_def split: sum.splits prod.splits option.splits)

lemma local_non_200:
  assumes "http_get env url = Inr response" and "resp_status response \<noteq> 200"
  shows "WebProcessor_process_webpage env storage_client url s =
           (Inl (Exception (''HTTP Error '' @ str_nat (resp_status response) @ '': ''
                             @ resp_reason response)), s)"
  using assms
  by (simp add: WebProcessor_process_webpage_def WebProcessor_extract_content_def Let_def)

subsection \<open>The example page\<close>

lemma example_find_all_table:
  "find_all [''table''] example_soup =
     [Tag ''table'' []
                [Tag ''tr'' [] [Tag ''td'' [] [NavigableString ''a''],
                                Tag ''td'' [] [NavigableString ''b'']],
                 Tag ''tr'' [] [Tag ''td'' [] [NavigableString ([CHR 0xC2, CHR 0xA0] @ ''c '')]],
                 Tag ''tr'' [] []]]"
  by (simp add: find_all_def example_soup_def)

lemma example_tables:
  "tables_loop (find_all [''table''] example_soup) = [[[''a'', ''b''], [''c'']]]"
  unfolding example_find_all_table
  by (simp add: find_all_def Let_def strip_examples strip_unicode)

lemma example_texts:
  "text_loop (find_all heading_names example_soup) = [''A'', ''B'']"
  by (simp add: find_all_def example_soup_def heading_names_def Let_def strip_examples strip_unicode)

lemma example_images: "images_loop env url (find_all [''img''] example_soup) = []"
  by (simp add: find_all_def example_soup_def)

lemma example_links: "links_loop env url (find_all [''a''] example_soup) = []"
  by (simp add: find_all_def example_soup_def)

lemma example_meta: "soup_meta example_soup n = Inr []"
  by (simp add: soup_meta_def example_soup_def)

lemma example_title: "soup_title example_soup = Some ''T''"
  by (simp add: soup_title_def example_soup_def)

lemma example_fetch:
  "http_get example_web_env ''http://example.com/'' =
     Inr \<lparr>resp_status = 200, resp_reason = ''OK'',
           resp_soup = example_soup, resp_markup = ''<html>'',
           resp_error = ''200, message='OK', url=URL('http://example.com/')''\<rparr>"
  by (simp add: example_web_env_def)

lemma example_extract:
  "WebProcessor_extract_content example_web_env ''http://example.com/'' =
     Inr \<lparr>lc_text_content = [''A'', ''B''], lc_tables = [[[''a'', ''b''], [''c'']]],
          lc_images = [], lc_links = [],
          lc_metadata = \<lparr>pm_title = Some ''T'', pm_url = ''http://example.com/'',
                          pm_description = [], pm_keywords = []\<rparr>\<rparr>"
  unfolding WebProcessor_extract_content_def example_fetch
  by (simp add: Let_def example_tables example_texts example_images example_links
        example_meta example_title)

lemma example_local_content:
  "map_sum id wr_content
     (fst (WebProcessor_process_webpage example_web_env None ''http://example.com/'' ())) =
   Inr (Opensource_content [''A'', ''B''] [[[''a'', ''b''], [''c'']]] [] [])"
  unfolding WebProcessor_process_webpage_def example_extract
  by (simp add: Let_def returns_def)

lemma example_gone:
  "http_get example_web_env ''http://gone.example/'' =
     Inr \<lparr>resp_status = 404, resp_reason = ''Not Found'',
           resp_soup = Tag ''[document]'' [] [], resp_markup = [],
           resp_error = ''404, message='Not Found', url=URL('http://gone.example/')''\<rparr>"
  by (simp add: example_web_env_def)

lemma str_nat_404: "str_nat 404 = ''404''"
  by (simp add: str_nat.simps digit_char_def)

text \<open>
  C10. Whenever \<open>WebProcessor.process_webpage\<close> returns, no table of its
  \<open>tables\<close> is empty and no row of a table is empty, and every entry of its text is
  non-empty after stripping: the tables are, for the \<open>table\<close> elements in document
  order, the non-empty cell lists of their \<open>tr\<close> elements, tables without such a
  row left out, and the text entries are the stripped texts of the heading and
  paragraph elements that are non-empty.
\<close>

theorem local_web_no_empty_table_row_or_text:
  assumes "fst (WebProcessor_process_webpage env storage_client url s) = Inr r"
  shows "[] \<notin> set (wc_tables (wr_content r))
       \<and> (\<forall>t \<in> set (wc_tables (wr_content r)). [] \<notin> set t)
       \<and> (\<forall>x \<in> set (wc_text_list (wr_content r)). strip x \<noteq> [])
       \<and> (\<exists>response. http_get env url = Inr response
            \<and> wc_tables (wr_content r) =
                filter (\<lambda>table_data. table_data \<noteq> [])
                  (map (\<lambda>table.
                          filter (\<lambda>row_data. row_data \<noteq> [])
                            (map (\<lambda>row. map (\<lambda>cell. strip (get_text cell))
                                         (find_all [''td'', ''th''] row))
                                 (find_all [''tr''] table)))
                       (find_all [''table''] (resp_soup response)))
            \<and> wc_text_list (wr_content r) =
                filter (\<lambda>t. t \<noteq> [])
                  (map (\<lambda>p. strip (get_text p)) (find_all heading_names (resp_soup response))))"
proof -
  from WebProcessor_process_webpage_Inr[OF assms] obtain c where
    c: "WebProcessor_extract_content env url = Inr c"
    and content: "wr_content r = Opensource_content (lc_text_content c) (lc_tables c)
                                   (lc_images c) (lc_links c)"
    by (elim exE conjE)
  from WebProcessor_extract_content_Inr[OF c] obtain response where
    fetched: "http_get env url = Inr response"
    and texts: "lc_text_content c = text_loop (find_all heading_names (resp_soup response))"
    and tables: "lc_tables c = tables_loop (find_all [''table''] (resp_soup response))"
    by (elim exE conjE)
  have t: "wc_tables (wr_content r) = tables_loop (find_all [''table''] (resp_soup response))"
    by (simp add: content tables)
  have x: "wc_text_list (wr_content r) = text_loop (find_all heading_names (resp_soup response))"
    by (simp add: content texts)
  have 1: "[] \<notin> set (wc_tables (wr_content r))"
    unfolding t by (rule tables_loop_nonempty)
  have 2: "\<forall>t \<in> set (wc_tables (wr_content r)). [] \<notin> set t"
    unfolding t using tables_loop_rows_nonempty by blast
  have 3: "\<forall>x \<in> set (wc_text_list (wr_content r)). strip x \<noteq> []"
    unfolding x using text_loop_nonblank by blast
  have 4: "wc_tables (wr_content r) =
                filter (\<lambda>table_data. table_data \<noteq> [])
                  (map (\<lambda>table.
                          filter (\<lambda>row_data. row_data \<noteq> [])
                            (map (\<lambda>row. map (\<lambda>cell. strip (get_text cell))
                                         (find_all [''td'', ''th''] row))
                                 (find_all [''tr''] table)))
                       (find_all [''table''] (resp_soup response)))"
    unfolding t tables_loop_eq rows_loop_eq ..
  have 5: "wc_text_list (wr_content r) =
                filter (\<lambda>t. t \<noteq> [])
                  (map (\<lambda>p. strip (get_text p)) (find_all heading_names (resp_soup response)))"
    unfolding x text_loop_eq ..
  show ?thesis
    using 1 2 3 fetched 4 5 by (intro conjI exI[of _ response])
qed

theorem local_web_no_empty_table_row_or_text_witness:
  "\<exists>r. fst (WebProcessor_process_webpage example_web_env None ''http://example.com/'' ()) = Inr r
      \<and> wr_content r = Opensource_content [''A'', ''B''] [[[''a'', ''b''], [''c'']]] [] []
      \<and> [] \<notin> set (wc_tables (wr_content r))
      \<and> (\<forall>t \<in> set (wc_tables (wr_content r)). [] \<notin> set t)
      \<and> (\<forall>x \<in> set (wc_text_list (wr_content r)). strip x \<noteq> [])"
proof -
  obtain r where
    r: "fst (WebProcessor_process_webpage example_web_env None ''http://example.com/'' ()) = Inr r"
    and content: "wr_content r = Opensource_content [''A'', ''B''] [[[''a'', ''b''], [''c'']]] [] []"
    using example_local_content
    by (cases "fst (WebProcessor_process_webpage example_web_env None ''http://example.com/'' ())")
       simp_all
  show ?thesis
    using local_web_no_empty_table_row_or_text[OF r] r content
    by (intro exI[of _ r]) simp
qed

text \<open>
  C8. When the fetch of the local web adapter answers with a status other than 200,
  \<open>WebProcessor.process_webpage\<close> raises the HTTP error: no record is returned,
  nothing is uploaded, and the outcome does not depend on what the Diffbot API would
  answer (the adapter never calls it).
\<close>

theorem local_web_non_200_is_fatal:
  assumes "http_get env url = Inr response" and "resp_status response \<noteq> 200"
  shows "WebProcessor_process_webpage env storage_client url s =
           (Inl (Exception (''HTTP Error '' @ str_nat (resp_status response) @ '': ''
                             @ resp_reason response)), s)
       \<and> WebProcessor_process_webpage (env\<lparr>diffbot_get := any_diffbot\<rparr>) storage_client url s =
           WebProcessor_process_webpage env storage_client url s"
proof -
  have fetched: "http_get (env\<lparr>diffbot_get := any_diffbot\<rparr>) url = Inr response"
    using assms(1) by simp
  have plain: "WebProcessor_process_webpage env storage_client url s =
           (Inl (Exception (''HTTP Error '' @ str_nat (resp_status response) @ '': ''
                             @ resp_reason response)), s)"
    by (rule local_non_200[OF assms])
  have other: "WebProcessor_process_webpage (env\<lparr>diffbot_get := any_diffbot\<rparr>) storage_client url s =
           (Inl (Exception (''HTTP Error '' @ str_nat (resp_status response) @ '': ''
                             @ resp_reason response)), s)"
    by (rule local_non_200[OF fetched assms(2)])
  show ?thesis
    unfolding other plain by (rule conjI) (rule refl)+
qed

theorem local_web_non_200_is_fatal_witness:
  "http_get example_web_env ''http://gone.example/'' =
     Inr \<lparr>resp_status = 404, resp_reason = ''Not Found'',
           resp_soup = Tag ''[document]'' [] [], resp_markup = [],
           resp_error = ''404, message='Not Found', url=URL('http://gone.example/')''\<rparr>
   \<and> WebProcessor_process_webpage example_web_env (Some failing_client) ''http://gone.example/'' () =
       (Inl (Exception ''HTTP Error 404: Not Found''), ())"
  using local_web_non_200_is_fatal[OF example_gone, of "Some failing_client" "()"] example_gone
  by (simp add: str_nat_404)

section \<open>Properties of the storage handler\<close>

lemma upload_key:
  assumes "StorageHandler_upload dumps file_data file_path content_type self = (Inr key, self')"
  shows "key = file_path"
  using assms
  by (auto simp: StorageHandler_upload_def split: sum.splits prod.splits file_data.splits)

lemma upload_dict_any_content_type:
  "StorageHandler_upload dumps (Dict d) file_path content_type self =
   StorageHandler_upload dumps (Dict d) file_path any_content_type self"
  by (simp add: StorageHandler_upload_def)

lemma upload_dict_stored:
  assumes "StorageHandler_upload dumps (Dict d) file_path content_type self = (Inr key, self')"
  shows "\<exists>text. dumps d = Inr text
           \<and> s3_objects (sh_s3_client self') (sh_bucket_name self, file_path) =
               Some \<lparr>obj_body = text, obj_content_type = ''application/json''\<rparr>"
  using assms
  by (auto simp: StorageHandler_upload_def upload_fileobj_def
           split: sum.splits prod.splits option.splits)

lemma example_upload:
  "StorageHandler_upload example_dumps (Dict (JDict [(''pages'', JInt 3)])) ''doc/metadata.json''
     ''text/plain'' example_handler =
   (Inr ''doc/metadata.json'',
    example_handler\<lparr>sh_s3_client :=
      \<lparr>s3_objects = (\<lambda>k. None)((''bucket'', ''doc/metadata.json'') \<mapsto>
          \<lparr>obj_body = ''{\"pages\": 3}'', obj_content_type = ''application/json''\<rparr>),
       s3_raises = (\<lambda>k. None)\<rparr>\<rparr>)"
  by (simp add: StorageHandler_upload_def upload_fileobj_def example_handler_def example_dumps_def)

text \<open>
  C9. When \<open>StorageHandler.upload\<close> is given a dictionary and returns, the object
  stored under \<open>file_path\<close> in the handler's bucket is \<open>json.dumps\<close> of the
  dictionary, encoded, with content type \<open>application/json\<close>, and the call does the
  same whatever \<open>content_type\<close> the caller passes; for any file data, the key
  returned on success is \<open>file_path\<close>.
\<close>

theorem upload_dict_stores_json:
  assumes "StorageHandler_upload dumps (Dict d) file_path content_type self = (Inr key, self')"
  shows "key = file_path
       \<and> (\<exists>text. dumps d = Inr text
            \<and> s3_objects (sh_s3_client self') (sh_bucket_name self, file_path) =
                Some \<lparr>obj_body = text, obj_content_type = ''application/json''\<rparr>)
       \<and> StorageHandler_upload dumps (Dict d) file_path any_content_type self = (Inr key, self')
       \<and> (StorageHandler_upload dumps file_data path2 content_type2 self2 = (Inr key2, self2')
            \<longrightarrow> key2 = path2)"
proof (intro conjI impI)
  show "key = file_path" using assms by (rule upload_key)
  show "\<exists>text. dumps d = Inr text
            \<and> s3_objects (sh_s3_client self') (sh_bucket_name self, file_path) =
                Some \<lparr>obj_body = text, obj_content_type = ''application/json''\<rparr>"
    using assms by (rule upload_dict_stored)
  show "StorageHandler_upload dumps (Dict d) file_path any_content_type self = (Inr key, self')"
    using assms upload_dict_any_content_type[of dumps d file_path content_type self any_content_type]
    by simp
  show "key2 = path2"
    if "StorageHandler_upload dumps file_data path2 content_type2 self2 = (Inr key2, self2')"
    using that by (rule upload_key)
qed

theorem upload_dict_stores_json_witness:
  "fst (StorageHandler_upload example_dumps (Dict (JDict [(''pages'', JInt 3)]))
          ''doc/metadata.json'' ''text/plain'' example_handler) = Inr ''doc/metadata.json''
   \<and> s3_objects (sh_s3_client (snd (StorageHandler_upload example_dumps
          (Dict (JDict [(''pages'', JInt 3)])) ''doc/metadata.json'' ''text/plain'' example_handler)))
        (''bucket'', ''doc/metadata.json'') =
       Some \<lparr>obj_body = ''{\"pages\": 3}'', obj_content_type = ''application/json''\<rparr>
   \<and> fst (StorageHandler_upload example_dumps (Dict (JDict [(''pages'', JInt 3)]))
          ''doc/metadata.json'' ''image/png'' example_handler) = Inr ''doc/metadata.json''"
  using upload_dict_stores_json[OF example_upload, of "''image/png''"]
  by (simp add: example_upload)

section \<open>The processors on the concrete inputs\<close>

subsection \<open>The PDF processors\<close>

lemma azure_processor_simps:
  "pep_use_fallback azure_processor = False" "pep_timeout azure_processor = 300"
  by (simp_all add: azure_processor_def PDFEnterpriseProcessor_init_def falsy_def)

lemma example_pages_loop:
  "pages_loop 0 (doc_pages example_doc) =
     ([''Hello'', ''World''],
      [\<lparr>img_data = ''IMG'', img_ext = ''png'', img_page = 1, img_index = 0\<rparr>])"
  by (simp add: example_doc_def Let_def strip_examples strip_unicode)

lemma example_azure_tables:
  "azure_tables (ar_tables example_analysis) = [[[''a''], ['''']]]"
  by (simp add: example_analysis_def spanning_table_def azure_table_data_def cell_at_def Let_def
        upt_rec)

lemma example_process_with_azure:
  "PDFEnterpriseProcessor_process_with_azure example_pdf_env ''doc.pdf'' =
     Inr \<lparr>er_text_content = [''Hello'', [], ''World''],
          er_tables = [[[''a''], ['''']]],
          er_images = None,
          er_key_value_pairs = Some [],
          er_metadata = \<lparr>em_page_count = 3, em_processor = ''Azure Document Intelligence'',
                          em_timestamp = ''2025-01-01T00:00:00''\<rparr>\<rparr>"
  by (simp add: PDFEnterpriseProcessor_process_with_azure_def example_pdf_env_def example_azure_tables)
     (simp add: example_analysis_def azure_page_text_def)

lemma example_extract_content_azure:
  "PDFEnterpriseProcessor_extract_content_azure azure_processor example_pdf_env ''doc.pdf'' =
     PDFEnterpriseProcessor_process_with_azure example_pdf_env ''doc.pdf''"
  by (simp add: PDFEnterpriseProcessor_extract_content_azure_def example_process_with_azure async_timeout_def on_timeout_def)

lemma example_process_with_pymupdf:
  "PDFEnterpriseProcessor_process_with_pymupdf example_pdf_env ''doc.pdf'' =
     Inr \<lparr>er_text_content = [''Hello'', ''World''],
          er_tables = [],
          er_images = Some [\<lparr>img_data = ''IMG'', img_ext = ''png'', img_page = 1, img_index = 0\<rparr>],
          er_key_value_pairs = None,
          er_metadata = \<lparr>em_page_count = 3, em_processor = ''PyMuPDF (fallback)'',
                          em_timestamp = ''2025-01-01T00:00:00''\<rparr>\<rparr>"
proof -
  have opened: "fitz_open example_pdf_env ''doc.pdf'' = Inr example_doc"
    by (simp add: example_pdf_env_def)
  show ?thesis
    unfolding PDFEnterpriseProcessor_process_with_pymupdf_def opened
    by (simp add: example_pages_loop) (simp add: example_doc_def example_pdf_env_def)
qed

lemma example_cloud_no_storage:
  "map_sum id pr_content
     (fst (PDFEnterpriseProcessor_process_pdf azure_processor example_pdf_env None ''doc.pdf'' ())) =
   Inr \<lparr>prc_text = [''Hello'', [], ''World''], prc_tables = [[[''a''], ['''']]],
        prc_images = [], prc_key_value_pairs = []\<rparr>"
  by (simp add: PDFEnterpriseProcessor_process_pdf_def PDFEnterpriseProcessor_process_pdf_try_def Let_def
        azure_processor_simps example_extract_content_azure example_process_with_azure returns_def)

lemma example_store_failing:
  "PDFEnterpriseProcessor_store_content example_pdf_env (Some failing_client) content doc_id () =
     (Inl (Exception ''S3 is unreachable''), ())"
  by (simp add: PDFEnterpriseProcessor_store_content_def Let_def and_then_def failing_client_def)

lemma example_cloud_failing_storage:
  "fst (PDFEnterpriseProcessor_process_pdf azure_processor example_pdf_env (Some failing_client)
          ''doc.pdf'' ()) =
   Inl (HTTPException 500 ''Error processing PDF: S3 is unreachable'')"
  by (simp add: PDFEnterpriseProcessor_process_pdf_def PDFEnterpriseProcessor_process_pdf_try_def Let_def
        azure_processor_simps example_extract_content_azure example_process_with_azure
        example_store_failing)

lemma example_local_store_failing:
  "PDFProcessor_store_content example_pdf_env (Some failing_client) content doc_id () =
     (Inr [], ())"
  by (simp add: PDFProcessor_store_content_def PDFProcessor_store_try_def Let_def and_then_def
        failing_client_def)

lemma example_local_result:
  "fst (PDFProcessor_process_pdf example_pdf_env (Some failing_client) ''doc.pdf'' ()) =
   Inr \<lparr>or_document_id = ''pdf_os_doc.pdf_20250101_000000'',
        or_content = \<lparr>orc_text = [''Hello'', ''World''], orc_tables = [],
                       orc_images = Some [\<lparr>id_page = 1, id_index = 0, id_ext = ''png''\<rparr>]\<rparr>,
        or_metadata =
          \<lparr>orm_document = \<lparr>md_title = ''Example'', md_author = [], md_subject = [],
             md_keywords = [], md_page_count = 3, md_file_size = 1024, md_creation_date = [],
             md_modification_date = []\<rparr>,
           orm_storage_paths = [], orm_processor = ''PyMuPDF'',
           orm_timestamp = ''2025-01-01T00:00:00''\<rparr>\<rparr>"
proof -
  have opened: "fitz_open example_pdf_env ''doc.pdf'' = Inr example_doc"
    by (simp add: example_pdf_env_def)
  show ?thesis
    unfolding PDFProcessor_process_pdf_def PDFProcessor_extract_content_def opened
    by (simp add: example_pages_loop Let_def example_local_store_failing
          PDFProcessor_generate_document_id_def basename_def)
       (simp add: example_doc_def example_pdf_env_def dict_get_def)
qed

subsection \<open>The cloud web processor\<close>

lemma example_bs_fallback:
  "WebEnterpriseProcessor_extract_content_fallback example_web_env ''http://example.com/'' =
     Inr \<lparr>ec_text = Some (''A'' @ [CHR 0x0A] @ ''B''), ec_title = Some ''T'', ec_imgs = Some [],
          ec_links = Some [],
          ec_html = Some ''<html>'', ec_author = None, ec_date = None, ec_siteName = None\<rparr>"
  unfolding WebEnterpriseProcessor_extract_content_fallback_def example_fetch
  by (simp add: raise_for_status_def Let_def example_texts example_images example_links
        example_title)

lemma example_diffbot_get:
  "diffbot_get example_web_env token url = Inr \<lparr>dr_status = 200,
          dr_error = ''200, message='OK', url=URL('https://api.diffbot.com/v3/article')'',
          dr_json = Inr (Some [])\<rparr>"
  by (simp add: example_web_env_def)

lemma example_diffbot:
  "WebEnterpriseProcessor_extract_content_diffbot example_web_env ''token'' ''http://example.com/'' =
     WebEnterpriseProcessor_extract_content_fallback example_web_env ''http://example.com/''"
  unfolding WebEnterpriseProcessor_extract_content_diffbot_def diffbot_try_def example_diffbot_get
  by (simp add: raise_for_status_def example_bs_fallback)

lemma example_enterprise_response:
  "fst (WebEnterpriseProcessor_process_webpage (Some ''token'') example_web_env None ''http://example.com/'' ()) =
   Inr \<lparr>wr_status = ''success'', wr_message = ''Webpage processed successfully'',
        wr_document_id = ''web_enterprise_01234567_20250101_000000'',
        wr_timestamp = ''2025-01-01T00:00:00'',
        wr_content = Enterprise_content (Some (''A'' @ [CHR 0x0A] @ ''B'')) (Some ''T'') (Some []) (Some []),
        wr_metadata = Enterprise_metadata ''http://example.com/'' ''Diffbot''
                        ''2025-01-01T00:00:00'' []\<rparr>"
  unfolding WebEnterpriseProcessor_process_webpage_def
  by (simp add: falsy_def example_diffbot example_bs_fallback Let_def returns_def
        WebEnterpriseProcessor_generate_document_id_def)
     (simp add: example_web_env_def)

lemma example_enterprise_no_token:
  "fst (WebEnterpriseProcessor_process_webpage None example_web_env None ''http://example.com/'' ()) =
   Inr \<lparr>wr_status = ''success'', wr_message = ''Webpage processed successfully'',
        wr_document_id = ''web_enterprise_01234567_20250101_000000'',
        wr_timestamp = ''2025-01-01T00:00:00'',
        wr_content = Enterprise_content (Some (''A'' @ [CHR 0x0A] @ ''B'')) (Some ''T'') (Some []) (Some []),
        wr_metadata = Enterprise_metadata ''http://example.com/'' ''BeautifulSoup (fallback)''
                        ''2025-01-01T00:00:00'' []\<rparr>"
  unfolding WebEnterpriseProcessor_process_webpage_def
  by (simp add: falsy_def example_bs_fallback Let_def returns_def
        WebEnterpriseProcessor_generate_document_id_def)
     (simp add: example_web_env_def)

section \<open>What a returned record comes from\<close>

lemma on_timeout_Inr: "on_timeout d x = Inr r \<Longrightarrow> x = Inr r"
  by (cases x) (auto simp: on_timeout_def split: py_exception.splits)

lemma async_timeout_Inr: "async_timeout t x = Inr r \<Longrightarrow> x = Inr r"
  by (cases x) (auto simp: async_timeout_def split: py_exception.splits)

lemma extract_content_azure_Inr:
  "PDFEnterpriseProcessor_extract_content_azure self env file_path = Inr r \<Longrightarrow> PDFEnterpriseProcessor_process_with_azure env file_path = Inr r"
  unfolding PDFEnterpriseProcessor_extract_content_azure_def by (rule async_timeout_Inr, rule on_timeout_Inr)

lemma extract_content_fallback_Inr:
  "PDFEnterpriseProcessor_extract_content_fallback self env file_path = Inr r \<Longrightarrow> PDFEnterpriseProcessor_process_with_pymupdf env file_path = Inr r"
  unfolding PDFEnterpriseProcessor_extract_content_fallback_def by (rule async_timeout_Inr, rule on_timeout_Inr)

lemma process_with_azure_Inr:
  assumes "PDFEnterpriseProcessor_process_with_azure env file_path = Inr r"
  shows "er_images r = None \<and> (\<exists>result. azure_analyze env file_path = Inr result
           \<and> er_tables r = azure_tables (ar_tables result))"
  using assms by (cases "azure_analyze env file_path") (auto simp: PDFEnterpriseProcessor_process_with_azure_def)

lemma process_pdf_try_Inr:
  assumes "fst (PDFEnterpriseProcessor_process_pdf_try self env storage_client file_path s) = Inr r"
  shows "\<exists>result. (if pep_use_fallback self then PDFEnterpriseProcessor_extract_content_fallback self env file_path
                   else PDFEnterpriseProcessor_extract_content_azure self env file_path) = Inr result
           \<and> prc_images (pr_content r) = (case er_images result of None \<Rightarrow> [] | Some i \<Rightarrow> i)
           \<and> prc_tables (pr_content r) = er_tables result
           \<and> prc_text (pr_content r) = er_text_content result"
proof (cases "if pep_use_fallback self then PDFEnterpriseProcessor_extract_content_fallback self env file_path
                   else PDFEnterpriseProcessor_extract_content_azure self env file_path")
  case (Inl e)
  then show ?thesis using assms by (simp add: PDFEnterpriseProcessor_process_pdf_try_def Let_def)
next
  case (Inr result)
  obtain stored s' where st: "(case storage_client of
                      None \<Rightarrow> returns [] s
                    | Some upload \<Rightarrow>
                        PDFEnterpriseProcessor_store_content env storage_client result
                          (PDFEnterpriseProcessor_generate_document_id self env file_path) s) = (stored, s')"
    by (cases "(case storage_client of
                      None \<Rightarrow> returns [] s
                    | Some upload \<Rightarrow>
                        PDFEnterpriseProcessor_store_content env storage_client result
                          (PDFEnterpriseProcessor_generate_document_id self env file_path) s)") simp
  show ?thesis
  proof (cases stored)
    case (Inl e)
    then show ?thesis using assms Inr st by (simp add: PDFEnterpriseProcessor_process_pdf_try_def Let_def)
  next
    case (Inr paths)
    then show ?thesis using assms \<open>_ = Inr result\<close> st
      by (auto simp: PDFEnterpriseProcessor_process_pdf_try_def Let_def)
  qed
qed

lemma process_pdf_Inr:
  assumes "fst (PDFEnterpriseProcessor_process_pdf self env storage_client file_path s) = Inr r"
  shows "fst (PDFEnterpriseProcessor_process_pdf_try self env storage_client file_path s) = Inr r"
proof (cases "PDFEnterpriseProcessor_process_pdf_try self env storage_client file_path s")
  case (Pair a b)
  then show ?thesis using assms
    by (cases a) (simp_all add: PDFEnterpriseProcessor_process_pdf_def)
qed

section \<open>A storage failure in each of the four processors\<close>

lemma local_pdf_storage_failure:
  assumes "PDFProcessor_extract_content env file_path = Inr content"
    and "PDFProcessor_store_try env (Some upload) content
           (PDFProcessor_generate_document_id env file_path) s = (Inl e, s')"
  shows "\<exists>r. PDFProcessor_process_pdf env (Some upload) file_path s = (Inr r, s')
           \<and> orm_storage_paths (or_metadata r) = []"
  using assms
  by (simp add: PDFProcessor_process_pdf_def PDFProcessor_store_content_def Let_def)

lemma local_web_storage_failure:
  assumes "WebProcessor_extract_content env url = Inr content"
    and "WebProcessor_store_try env (Some upload) content
           (WebProcessor_generate_document_id env url) s = (Inl e, s')"
  shows "\<exists>r. WebProcessor_process_webpage env (Some upload) url s = (Inr r, s')
           \<and> wm_storage_paths (wr_metadata r) = []"
  using assms
  by (simp add: WebProcessor_process_webpage_def WebProcessor_store_content_def Let_def)

lemma cloud_web_storage_failure:
  assumes "(if \<not> falsy diffbot_token
            then WebEnterpriseProcessor_extract_content_diffbot env (the diffbot_token) url
            else WebEnterpriseProcessor_extract_content_fallback env url) = Inr content"
    and "WebEnterpriseProcessor_store_try env (Some upload) content
           (WebEnterpriseProcessor_generate_document_id env url) s = (Inl e, s')"
  shows "\<exists>r. WebEnterpriseProcessor_process_webpage diffbot_token env (Some upload) url s = (Inr r, s')
           \<and> wm_storage_paths (wr_metadata r) = []"
  using assms
  by (simp add: WebEnterpriseProcessor_process_webpage_def WebEnterpriseProcessor_store_content_def
        Let_def)

lemma cloud_pdf_storage_failure:
  assumes "(if pep_use_fallback self
            then PDFEnterpriseProcessor_extract_content_fallback self env file_path
            else PDFEnterpriseProcessor_extract_content_azure self env file_path) = Inr result"
    and "PDFEnterpriseProcessor_store_content env (Some upload) result
           (PDFEnterpriseProcessor_generate_document_id self env file_path) s = (Inl e, s')"
  shows "PDFEnterpriseProcessor_process_pdf self env (Some upload) file_path s =
           (Inl (HTTPException 500 (''Error processing PDF: '' @ str_exn e)), s')"
  using assms
  by (simp add: PDFEnterpriseProcessor_process_pdf_def PDFEnterpriseProcessor_process_pdf_try_def
        Let_def)


text \<open>
  A timeout of the analysis reaches the caller as an \<open>HTTPException\<close> wrapped in
  another one, the outer detail holding the \<open>str\<close> of the inner exception.
\<close>

lemma str_nat_examples: "str_nat 300 = ''300''" "str_nat 500 = ''500''"
  by (simp_all add: str_nat.simps digit_char_def)

lemma cloud_pdf_timeout:
  assumes "\<not> pep_use_fallback self" and "pep_timeout self = 300"
    and "azure_analyze env file_path = Inl (TimeoutError m)"
  shows "PDFEnterpriseProcessor_process_pdf self env storage_client file_path s =
           (Inl (HTTPException 500
                   ''Error processing PDF: 500: Operation timed out after 300 seconds''), s)"
  using assms
  by (simp add: PDFEnterpriseProcessor_process_pdf_def PDFEnterpriseProcessor_process_pdf_try_def
        PDFEnterpriseProcessor_extract_content_azure_def
        PDFEnterpriseProcessor_process_with_azure_def async_timeout_def on_timeout_def Let_def
        str_nat_examples)

text \<open>
  A text that Diffbot sends as \<open>null\<close> cannot be encoded: nothing is uploaded and
  the storage paths are empty.
\<close>

lemma null_text_store:
  "WebEnterpriseProcessor_store_content env (Some upload)
     (content\<lparr>ec_text := None\<rparr>) doc_id s = (Inr [], s)"
  by (simp add: WebEnterpriseProcessor_store_content_def WebEnterpriseProcessor_store_try_def
        Let_def and_then_def evaluates_def encode_def)

section \<open>Where the processors depart from their description\<close>

lemma example_cloud_images:
  "map_sum id (prc_images \<circ> pr_content)
     (fst (PDFEnterpriseProcessor_process_pdf azure_processor example_pdf_env None ''doc.pdf'' ())) =
   Inr []"
  by (simp add: PDFEnterpriseProcessor_process_pdf_def PDFEnterpriseProcessor_process_pdf_try_def Let_def
        azure_processor_simps example_extract_content_azure example_process_with_azure returns_def)

lemma example_own_image_routine:
  "PDFEnterpriseProcessor_extract_images_from_pdf (Inr example_doc) =
     [\<lparr>img_data = ''IMG'', img_ext = ''png'', img_page = 1, img_index = 1\<rparr>]"
  by (simp add: PDFEnterpriseProcessor_extract_images_from_pdf_def example_doc_def)

text \<open>
  For every request, the images of the cloud path of \<open>process_pdf\<close> are empty: the
  dictionary of \<open>_process_with_azure\<close> has no key \<open>images\<close>.
\<close>

lemma azure_path_images_empty:
  assumes "\<not> pep_use_fallback self"
    and "fst (PDFEnterpriseProcessor_process_pdf self env storage_client file_path s) = Inr r"
  shows "prc_images (pr_content r) = []"
proof -
  from process_pdf_try_Inr[OF process_pdf_Inr[OF assms(2)]] assms(1)
  obtain result where res: "PDFEnterpriseProcessor_extract_content_azure self env file_path = Inr result"
    and img: "prc_images (pr_content r) = (case er_images result of None \<Rightarrow> [] | Some i \<Rightarrow> i)"
    by auto
  from process_with_azure_Inr[OF extract_content_azure_Inr[OF res]] img
  show ?thesis by simp
qed

text \<open>
  For every request that returns, the label of the cloud web processor is decided
  by the token alone.
\<close>

lemma enterprise_label_by_token:
  assumes "fst (WebEnterpriseProcessor_process_webpage diffbot_token env storage_client url s) = Inr r"
  shows "wm_processor (wr_metadata r) =
           (if \<not> falsy diffbot_token then ''Diffbot'' else ''BeautifulSoup (fallback)'')"
proof (cases "if \<not> falsy diffbot_token
               then WebEnterpriseProcessor_extract_content_diffbot env (the diffbot_token) url
               else WebEnterpriseProcessor_extract_content_fallback env url")
  case (Inl e)
  then show ?thesis using assms by (simp add: WebEnterpriseProcessor_process_webpage_def Let_def)
next
  case (Inr content)
  obtain stored s' where st: "(case storage_client of
                      None \<Rightarrow> returns [] s
                    | Some upload \<Rightarrow>
                        WebEnterpriseProcessor_store_content env storage_client content
                          (WebEnterpriseProcessor_generate_document_id env url) s) = (stored, s')"
    by (cases "(case storage_client of
                      None \<Rightarrow> returns [] s
                    | Some upload \<Rightarrow>
                        WebEnterpriseProcessor_store_content env storage_client content
                          (WebEnterpriseProcessor_generate_document_id env url) s)") simp
  show ?thesis
  proof (cases stored)
    case (Inl e)
    then show ?thesis using assms Inr st by (simp add: WebEnterpriseProcessor_process_webpage_def Let_def)
  next
    case (Inr paths)
    then show ?thesis using assms \<open>_ = Inr content\<close> st
      by (auto simp: WebEnterpriseProcessor_process_webpage_def Let_def)
  qed
qed

text \<open>
  C1 (the code departs from the claim). A Diffbot token is configured and the API
  answers the request with an empty list of objects: the content of the response is
  what the BeautifulSoup routine extracted from the page, and
  \<open>metadata.processor\<close> is \<open>Diffbot\<close>. Without a token the same content is
  labelled \<open>BeautifulSoup (fallback)\<close>.
\<close>

theorem diffbot_runtime_fallback_is_labelled_diffbot:
  "WebEnterpriseProcessor_extract_content_diffbot example_web_env ''token'' ''http://example.com/'' =
     WebEnterpriseProcessor_extract_content_fallback example_web_env ''http://example.com/''
   \<and> map_sum id wr_content
        (fst (WebEnterpriseProcessor_process_webpage (Some ''token'') example_web_env None
                ''http://example.com/'' ())) =
       Inr (Enterprise_content (Some (''A'' @ [CHR 0x0A] @ ''B'')) (Some ''T'') (Some []) (Some []))
   \<and> map_sum id (wm_processor \<circ> wr_metadata)
        (fst (WebEnterpriseProcessor_process_webpage (Some ''token'') example_web_env None
                ''http://example.com/'' ())) = Inr ''Diffbot''
   \<and> map_sum id (wm_processor \<circ> wr_metadata)
        (fst (WebEnterpriseProcessor_process_webpage None example_web_env None
                ''http://example.com/'' ())) = Inr ''BeautifulSoup (fallback)''"
  by (simp add: example_diffbot example_enterprise_response example_enterprise_no_token)

text \<open>
  C2 (the code departs from the claim). The cloud PDF processor extracts the
  content of the example document, the storage client raises on the first upload,
  and \<open>process_pdf\<close> raises \<open>HTTPException(500)\<close>; the local PDF processor, with
  the same client and document, returns its record with empty storage paths.
\<close>

theorem cloud_pdf_storage_failure_fails_request:
  "\<not> isl (PDFEnterpriseProcessor_extract_content_azure azure_processor example_pdf_env ''doc.pdf'')
   \<and> fst (PDFEnterpriseProcessor_process_pdf azure_processor example_pdf_env
            (Some failing_client) ''doc.pdf'' ()) =
       Inl (HTTPException 500 ''Error processing PDF: S3 is unreachable'')
   \<and> map_sum id (orm_storage_paths \<circ> or_metadata)
        (fst (PDFProcessor_process_pdf example_pdf_env (Some failing_client) ''doc.pdf'' ())) =
       Inr []"
  by (simp add: example_extract_content_azure example_process_with_azure
        example_cloud_failing_storage example_local_result)

text \<open>
  C7 (the code departs from the claim). The example document has an embedded image
  on its first page. The cloud path of \<open>process_pdf\<close> returns no image, while the
  PyMuPDF routine of the same class, the local adapter and the image routine
  \<open>_extract_images_from_pdf\<close> (which \<open>process_pdf\<close> never reaches) all find it.
\<close>

theorem cloud_pdf_main_path_returns_no_images:
  "pep_use_fallback azure_processor = False
   \<and> map_sum id (prc_images \<circ> pr_content)
        (fst (PDFEnterpriseProcessor_process_pdf azure_processor example_pdf_env None
                ''doc.pdf'' ())) = Inr []
   \<and> map_sum id er_images (PDFEnterpriseProcessor_process_with_pymupdf example_pdf_env ''doc.pdf'') =
       Inr (Some [\<lparr>img_data = ''IMG'', img_ext = ''png'', img_page = 1, img_index = 0\<rparr>])
   \<and> map_sum id (orc_images \<circ> or_content)
        (fst (PDFProcessor_process_pdf example_pdf_env (Some failing_client) ''doc.pdf'' ())) =
       Inr (Some [\<lparr>id_page = 1, id_index = 0, id_ext = ''png''\<rparr>])
   \<and> PDFEnterpriseProcessor_extract_images_from_pdf (Inr example_doc) =
       [\<lparr>img_data = ''IMG'', img_ext = ''png'', img_page = 1, img_index = 1\<rparr>]"
  by (simp add: azure_processor_simps example_cloud_images example_process_with_pymupdf
        example_local_result example_own_image_routine)

section \<open>Tables of the cloud PDF adapter\<close>

lemma py_max_Inr:
  assumes "py_max xs = Inr m"
  shows "xs \<noteq> [] \<and> m \<in> set xs \<and> (\<forall>x \<in> set xs. x \<le> m)"
proof (cases xs)
  case Nil
  then show ?thesis using assms by (simp add: py_max_def)
next
  case (Cons x rest)
  then have m: "m = Max (set xs)"
    using assms Max.set_eq_fold[of x rest] by (simp add: py_max_def)
  have "Max (set xs) \<in> set xs"
    using Cons by (intro Max_in) simp_all
  moreover have "\<forall>y \<in> set xs. y \<le> Max (set xs)"
    by (simp add: Max_ge)
  ultimately show ?thesis unfolding m using Cons by simp
qed

lemma find_snoc:
  "find P (xs @ [x]) = (case find P xs of None \<Rightarrow> (if P x then Some x else None) | Some y \<Rightarrow> Some y)"
  by (induction xs) simp_all

lemma fill_cells_ok:
  assumes "length g = rows" and "\<forall>row \<in> set g. length row = cols"
    and "\<forall>cell \<in> set cs. row_index cell < rows \<and> column_index cell < cols"
  shows "\<exists>g'. fill_cells cs g = Inr g' \<and> length g' = rows
           \<and> (\<forall>row \<in> set g'. length row = cols)
           \<and> (\<forall>r < rows. \<forall>c < cols. g' ! r ! c =
                 (case find (\<lambda>cell. row_index cell = r \<and> column_index cell = c) (rev cs) of
                    None \<Rightarrow> g ! r ! c
                  | Some cell \<Rightarrow> cell_content cell))"
  using assms
proof (induction cs arbitrary: g)
  case Nil
  then show ?case by simp
next
  case (Cons cell rest)
  let ?ri = "row_index cell" and ?ci = "column_index cell"
  let ?g1 = "g[?ri := (g ! ?ri)[?ci := cell_content cell]]"
  have ri: "?ri < rows" and ci: "?ci < cols" using Cons.prems(3) by simp_all
  have rowlen: "length (g ! ?ri) = cols" using Cons.prems(1,2) ri by simp
  have len1: "length ?g1 = rows" using Cons.prems(1) by simp
  have rows1: "\<forall>row \<in> set ?g1. length row = cols"
  proof
    fix row assume "row \<in> set ?g1"
    then have "row \<in> insert ((g ! ?ri)[?ci := cell_content cell]) (set g)"
      using set_update_subset_insert by fastforce
    then show "length row = cols" using Cons.prems(2) rowlen by auto
  qed
  have rest: "\<forall>c \<in> set rest. row_index c < rows \<and> column_index c < cols"
    using Cons.prems(3) by simp
  from Cons.IH[OF len1 rows1 rest] obtain g' where
    g': "fill_cells rest ?g1 = Inr g'" "length g' = rows" "\<forall>row \<in> set g'. length row = cols"
    and at: "\<forall>r < rows. \<forall>c < cols. g' ! r ! c =
                 (case find (\<lambda>cell. row_index cell = r \<and> column_index cell = c) (rev rest) of
                    None \<Rightarrow> ?g1 ! r ! c
                  | Some cell \<Rightarrow> cell_content cell)"
    by (elim exE conjE)
  have step: "fill_cells (cell # rest) g = Inr g'"
    using g'(1) ri ci rowlen Cons.prems(1) by simp
  have content: "\<forall>r < rows. \<forall>c < cols. g' ! r ! c =
                 (case find (\<lambda>cell. row_index cell = r \<and> column_index cell = c) (rev (cell # rest)) of
                    None \<Rightarrow> g ! r ! c
                  | Some cell \<Rightarrow> cell_content cell)"
  proof (intro allI impI)
    fix r c assume r: "r < rows" and c: "c < cols"
    have g1: "?g1 ! r ! c = (if r = ?ri \<and> c = ?ci then cell_content cell else g ! r ! c)"
      using r c ri ci rowlen Cons.prems(1) by (simp add: nth_list_update)
    show "g' ! r ! c =
                 (case find (\<lambda>cell. row_index cell = r \<and> column_index cell = c) (rev (cell # rest)) of
                    None \<Rightarrow> g ! r ! c
                  | Some cell \<Rightarrow> cell_content cell)"
      using at r c g1 by (auto simp: find_snoc split: option.splits)
  qed
  show ?case using step g'(2,3) content by (intro exI[of _ g'] conjI)
qed

lemma azure_table_data_length: "length (azure_table_data t) = row_count t"
  by (simp add: azure_table_data_def)

lemma azure_table_data_rows: "row \<in> set (azure_table_data t) \<Longrightarrow> length row = column_count t"
  by (auto simp: azure_table_data_def)

lemma azure_table_data_nth:
  "r < row_count t \<Longrightarrow> c < column_count t \<Longrightarrow>
     azure_table_data t ! r ! c =
       (case find (\<lambda>cell. row_index cell = r \<and> column_index cell = c) (cells t) of
          None \<Rightarrow> [] | Some cell \<Rightarrow> cell_content cell)"
  by (simp add: azure_table_data_def cell_at_def)

lemma azure_tables_eq:
  "azure_tables ts = map azure_table_data (filter (\<lambda>t. row_count t \<noteq> 0) ts)"
proof (induction ts)
  case Nil
  show ?case by simp
next
  case (Cons t ts)
  have "azure_table_data t \<noteq> [] \<longleftrightarrow> row_count t \<noteq> 0"
    using azure_table_data_length[of t] by (metis length_0_conv)
  then show ?case using Cons by (simp add: Let_def)
qed

lemma indexed_table_data_ok:
  assumes "py_max (map row_index (cells t)) = Inr R"
    and "py_max (map column_index (cells t)) = Inr C"
  shows "\<exists>g. indexed_table_data t = Inr g \<and> length g = R + 1
           \<and> (\<forall>row \<in> set g. length row = C + 1)
           \<and> (\<forall>r < R + 1. \<forall>c < C + 1. g ! r ! c =
                 (case find (\<lambda>cell. row_index cell = r \<and> column_index cell = c) (rev (cells t)) of
                    None \<Rightarrow> [] | Some cell \<Rightarrow> cell_content cell))"
proof -
  let ?g0 = "replicate (R + 1) (replicate (C + 1) ([]::string))"
  have bound: "\<forall>cell \<in> set (cells t). row_index cell < R + 1 \<and> column_index cell < C + 1"
    using py_max_Inr[OF assms(1)] py_max_Inr[OF assms(2)] by (auto simp: less_Suc_eq_le)
  have len0: "length ?g0 = R + 1" by simp
  have rows0: "\<forall>row \<in> set ?g0. length row = C + 1" by simp
  from fill_cells_ok[OF len0 rows0 bound] obtain g where
    g: "fill_cells (cells t) ?g0 = Inr g" "length g = R + 1" "\<forall>row \<in> set g. length row = C + 1"
    and at: "\<forall>r < R + 1. \<forall>c < C + 1. g ! r ! c =
                 (case find (\<lambda>cell. row_index cell = r \<and> column_index cell = c) (rev (cells t)) of
                    None \<Rightarrow> ?g0 ! r ! c
                  | Some cell \<Rightarrow> cell_content cell)"
    by (elim exE conjE)
  have run: "indexed_table_data t = Inr g"
    using assms g(1) by (simp add: indexed_table_data_def Let_def)
  have at': "\<forall>r < R + 1. \<forall>c < C + 1. g ! r ! c =
                 (case find (\<lambda>cell. row_index cell = r \<and> column_index cell = c) (rev (cells t)) of
                    None \<Rightarrow> [] | Some cell \<Rightarrow> cell_content cell)"
  proof (intro allI impI)
    fix r c assume r: "r < R + 1" and c: "c < C + 1"
    have z: "?g0 ! r ! c = []"
      using r c by (simp only: nth_replicate)
    show "g ! r ! c =
                 (case find (\<lambda>cell. row_index cell = r \<and> column_index cell = c) (rev (cells t)) of
                    None \<Rightarrow> [] | Some cell \<Rightarrow> cell_content cell)"
      using at[rule_format, OF r c] by (simp only: z)
  qed
  show ?thesis using run g(2,3) at' by (intro exI[of _ g] conjI)
qed

lemma full_table_azure:
  "azure_table_data full_table = [[''c00'', ''c01'', ''c02''], [''c10'', ''c11'', ''c12'']]"
  by (simp add: azure_table_data_def cell_at_def full_table_def upt_rec)

lemma full_table_max:
  "py_max (map row_index (cells full_table)) = Inr 1"
  "py_max (map column_index (cells full_table)) = Inr 2"
  by (simp_all add: py_max_def full_table_def)

lemma full_table_indexed:
  "indexed_table_data full_table = Inr [[''c00'', ''c01'', ''c02''], [''c10'', ''c11'', ''c12'']]"
  by (simp add: indexed_table_data_def full_table_max Let_def)
     (simp add: full_table_def numeral_2_eq_2 numeral_3_eq_3)


lemma spanning_table_azure: "azure_table_data spanning_table = [[''a''], ['''']]"
  by (simp add: azure_table_data_def cell_at_def spanning_table_def upt_rec)

text \<open>
  For every table, the grid of the main path, \<open>_process_with_azure\<close>, has the
  \<open>row_count\<close> rows and the \<open>column_count\<close> columns the service declares, a
  position holding the content of the first cell that reports it and the empty
  string when no cell does, and a table with \<open>row_count = 0\<close> is left out. The
  routine sized by the indices, \<open>_extract_content\<close>, builds for every table with a
  cell, of largest row index \<open>R\<close> and largest column index \<open>C\<close>, the grid of
  \<open>R + 1\<close> rows and \<open>C + 1\<close> columns, a position holding the content of the
  last cell that reports it and the empty string when no cell does. So the two
  grids have the same size exactly when the declared counts are \<open>R + 1\<close> and
  \<open>C + 1\<close>.
\<close>

lemma table_grids:
  "length (azure_table_data t) = row_count t
   \<and> (\<forall>row \<in> set (azure_table_data t). length row = column_count t)
   \<and> (\<forall>r < row_count t. \<forall>c < column_count t.
         azure_table_data t ! r ! c =
           (case find (\<lambda>cell. row_index cell = r \<and> column_index cell = c) (cells t) of
              None \<Rightarrow> [] | Some cell \<Rightarrow> cell_content cell))
   \<and> azure_tables ts = map azure_table_data (filter (\<lambda>t. row_count t \<noteq> 0) ts)
   \<and> (py_max (map row_index (cells t)) = Inr R \<and> py_max (map column_index (cells t)) = Inr C
        \<longrightarrow> (\<exists>g. indexed_table_data t = Inr g \<and> length g = R + 1
                \<and> (\<forall>row \<in> set g. length row = C + 1)
                \<and> (\<forall>r < R + 1. \<forall>c < C + 1. g ! r ! c =
                      (case find (\<lambda>cell. row_index cell = r \<and> column_index cell = c)
                              (rev (cells t)) of
                         None \<Rightarrow> [] | Some cell \<Rightarrow> cell_content cell))))"
proof (intro conjI impI ballI allI)
  show "length (azure_table_data t) = row_count t"
    by (rule azure_table_data_length)
  show "length row = column_count t" if "row \<in> set (azure_table_data t)" for row
    using that by (rule azure_table_data_rows)
  show "azure_table_data t ! r ! c =
           (case find (\<lambda>cell. row_index cell = r \<and> column_index cell = c) (cells t) of
              None \<Rightarrow> [] | Some cell \<Rightarrow> cell_content cell)"
    if "r < row_count t" and "c < column_count t" for r c
    using that by (rule azure_table_data_nth)
  show "azure_tables ts = map azure_table_data (filter (\<lambda>t. row_count t \<noteq> 0) ts)"
    by (rule azure_tables_eq)
  show "\<exists>g. indexed_table_data t = Inr g \<and> length g = R + 1
                \<and> (\<forall>row \<in> set g. length row = C + 1)
                \<and> (\<forall>r < R + 1. \<forall>c < C + 1. g ! r ! c =
                      (case find (\<lambda>cell. row_index cell = r \<and> column_index cell = c)
                              (rev (cells t)) of
                         None \<Rightarrow> [] | Some cell \<Rightarrow> cell_content cell))"
    if "py_max (map row_index (cells t)) = Inr R \<and> py_max (map column_index (cells t)) = Inr C"
    using that indexed_table_data_ok[of t R C] by simp
qed

lemma main_path_rows_differ:
  assumes "py_max (map row_index (cells t)) = Inr R" and "row_count t \<noteq> R + 1"
  shows "length (azure_table_data t) \<noteq> R + 1"
  using assms(2) by (simp add: azure_table_data_length)

lemma main_path_columns_differ:
  assumes "py_max (map column_index (cells t)) = Inr C" and "column_count t \<noteq> C + 1"
    and "row \<in> set (azure_table_data t)"
  shows "length row \<noteq> C + 1"
  using assms(2) azure_table_data_rows[OF assms(3)] by simp





section \<open>Rectangular tables\<close>

lemma rectangular_azure_table_data: "rectangular (azure_table_data t)"
  by (simp add: rectangular_def azure_table_data_rows)

lemma rectangular_azure_tables: "g \<in> set (azure_tables ts) \<Longrightarrow> rectangular g"
  by (auto simp: azure_tables_eq rectangular_azure_table_data)

lemma process_with_pymupdf_tables:
  assumes "PDFEnterpriseProcessor_process_with_pymupdf env file_path = Inr r"
  shows "er_tables r = []"
  using assms
  by (cases "fitz_open env file_path") (auto simp: PDFEnterpriseProcessor_process_with_pymupdf_def Let_def split_beta)

lemma enterprise_pdf_tables_rectangular:
  assumes "fst (PDFEnterpriseProcessor_process_pdf self env storage_client file_path s) = Inr r"
  shows "\<forall>t \<in> set (prc_tables (pr_content r)). rectangular t"
proof -
  from process_pdf_try_Inr[OF process_pdf_Inr[OF assms]] obtain result where
    res: "(if pep_use_fallback self then PDFEnterpriseProcessor_extract_content_fallback self env file_path
           else PDFEnterpriseProcessor_extract_content_azure self env file_path) = Inr result"
    and tables: "prc_tables (pr_content r) = er_tables result"
    by (elim exE conjE)
  show ?thesis
  proof (cases "pep_use_fallback self")
    case True
    then have "PDFEnterpriseProcessor_process_with_pymupdf env file_path = Inr result"
      using res extract_content_fallback_Inr by simp
    then show ?thesis using tables process_with_pymupdf_tables by simp
  next
    case False
    then have "PDFEnterpriseProcessor_process_with_azure env file_path = Inr result"
      using res extract_content_azure_Inr by simp
    from process_with_azure_Inr[OF this] have "\<forall>t \<in> set (er_tables result). rectangular t"
      using rectangular_azure_tables by auto
    then show ?thesis using tables by simp
  qed
qed

lemma local_pdf_tables_empty:
  assumes "fst (PDFProcessor_process_pdf env storage_client file_path s) = Inr r"
  shows "orc_tables (or_content r) = []"
proof (cases "PDFProcessor_extract_content env file_path")
  case (Inl e)
  then show ?thesis using assms by (simp add: PDFProcessor_process_pdf_def Let_def)
next
  case (Inr content)
  then have "oc_tables content = []"
    by (cases "fitz_open env file_path")
       (auto simp: PDFProcessor_extract_content_def Let_def split_beta)
  then show ?thesis using assms Inr
    by (auto simp: PDFProcessor_process_pdf_def Let_def split_beta)
qed

lemma enterprise_web_content_shape:
  assumes "fst (WebEnterpriseProcessor_process_webpage diffbot_token env storage_client url s) = Inr r"
  shows "is_Enterprise_content (wr_content r)"
proof (cases "if \<not> falsy diffbot_token
               then WebEnterpriseProcessor_extract_content_diffbot env (the diffbot_token) url
               else WebEnterpriseProcessor_extract_content_fallback env url")
  case (Inl e)
  then show ?thesis using assms by (simp add: WebEnterpriseProcessor_process_webpage_def Let_def)
next
  case (Inr content)
  obtain stored s' where st: "(case storage_client of
                      None \<Rightarrow> returns [] s
                    | Some upload \<Rightarrow>
                        WebEnterpriseProcessor_store_content env storage_client content
                          (WebEnterpriseProcessor_generate_document_id env url) s) = (stored, s')"
    by (cases "(case storage_client of
                      None \<Rightarrow> returns [] s
                    | Some upload \<Rightarrow>
                        WebEnterpriseProcessor_store_content env storage_client content
                          (WebEnterpriseProcessor_generate_document_id env url) s)") simp
  show ?thesis
  proof (cases stored)
    case (Inl e)
    then show ?thesis using assms Inr st by (simp add: WebEnterpriseProcessor_process_webpage_def Let_def)
  next
    case (Inr paths)
    then show ?thesis using assms \<open>_ = Inr content\<close> st
      by (auto simp: WebEnterpriseProcessor_process_webpage_def Let_def)
  qed
qed

lemma not_rectangular_example: "\<not> rectangular [[''a'', ''b''], [''c'']]"
  by (simp add: rectangular_def)

lemma rectangular_example: "rectangular [[''a''], ['''']]"
  by (simp add: rectangular_def)

text \<open>
  C4 (amended). Every table in a record of the cloud PDF processor is rectangular,
  on its Azure path and on its PyMuPDF path alike; the local PDF adapter returns no
  table; the content of the cloud web processor has no \<open>tables\<close> key. The rows of
  the local web adapter are the cell lists of the \<open>tr\<close> elements as they are, and
  nothing is said about their lengths.
\<close>

theorem tables_rectangular_except_local_web:
  "(fst (PDFEnterpriseProcessor_process_pdf self pdf_env cloud_client file_path s1) = Inr r1
      \<longrightarrow> (\<forall>t \<in> set (prc_tables (pr_content r1)). rectangular t))
   \<and> (fst (PDFProcessor_process_pdf pdf_env local_client file_path s2) = Inr r2
      \<longrightarrow> orc_tables (or_content r2) = []
          \<and> (\<forall>t \<in> set (orc_tables (or_content r2)). rectangular t))
   \<and> (fst (WebEnterpriseProcessor_process_webpage diffbot_token web_env web_client url s3) = Inr r3
      \<longrightarrow> is_Enterprise_content (wr_content r3))"
proof (intro conjI impI)
  show "\<forall>t \<in> set (prc_tables (pr_content r1)). rectangular t"
    if "fst (PDFEnterpriseProcessor_process_pdf self pdf_env cloud_client file_path s1) = Inr r1"
    using that by (rule enterprise_pdf_tables_rectangular)
  show "orc_tables (or_content r2) = []"
    if "fst (PDFProcessor_process_pdf pdf_env local_client file_path s2) = Inr r2"
    using that by (rule local_pdf_tables_empty)
  show "\<forall>t \<in> set (orc_tables (or_content r2)). rectangular t"
    if "fst (PDFProcessor_process_pdf pdf_env local_client file_path s2) = Inr r2"
    using local_pdf_tables_empty[OF that] by simp
  show "is_Enterprise_content (wr_content r3)"
    if "fst (WebEnterpriseProcessor_process_webpage diffbot_token web_env web_client url s3) = Inr r3"
    using that by (rule enterprise_web_content_shape)
qed

theorem tables_rectangular_except_local_web_witness:
  "(\<exists>r1. fst (PDFEnterpriseProcessor_process_pdf azure_processor example_pdf_env None
                ''doc.pdf'' ()) = Inr r1
        \<and> prc_tables (pr_content r1) = [[[''a''], ['''']]]
        \<and> (\<forall>t \<in> set (prc_tables (pr_content r1)). rectangular t))
   \<and> (\<exists>r2. fst (PDFProcessor_process_pdf example_pdf_env (Some failing_client)
                ''doc.pdf'' ()) = Inr r2
        \<and> orc_tables (or_content r2) = [])
   \<and> (\<exists>r3. fst (WebEnterpriseProcessor_process_webpage (Some ''token'') example_web_env None
                ''http://example.com/'' ()) = Inr r3
        \<and> is_Enterprise_content (wr_content r3))"
proof -
  obtain r1 where
    r1: "fst (PDFEnterpriseProcessor_process_pdf azure_processor example_pdf_env None
                ''doc.pdf'' ()) = Inr r1"
    and t1: "pr_content r1 = \<lparr>prc_text = [''Hello'', [], ''World''],
               prc_tables = [[[''a''], ['''']]], prc_images = [], prc_key_value_pairs = []\<rparr>"
    using example_cloud_no_storage
    by (cases "fst (PDFEnterpriseProcessor_process_pdf azure_processor example_pdf_env None
                ''doc.pdf'' ())") simp_all
  obtain r2 where
    r2: "fst (PDFProcessor_process_pdf example_pdf_env (Some failing_client)
                ''doc.pdf'' ()) = Inr r2"
    by (simp add: example_local_result)
  obtain r3 where
    r3: "fst (WebEnterpriseProcessor_process_webpage (Some ''token'') example_web_env None
                ''http://example.com/'' ()) = Inr r3"
    by (simp add: example_enterprise_response)
  note all = tables_rectangular_except_local_web[of azure_processor example_pdf_env None
      "''doc.pdf''" "()" r1 "Some failing_client" "()" r2 "Some ''token''" example_web_env None
      "''http://example.com/''" "()" r3]
  have 1: "\<exists>r1. fst (PDFEnterpriseProcessor_process_pdf azure_processor example_pdf_env None
                ''doc.pdf'' ()) = Inr r1
        \<and> prc_tables (pr_content r1) = [[[''a''], ['''']]]
        \<and> (\<forall>t \<in> set (prc_tables (pr_content r1)). rectangular t)"
    using all r1 t1 by (intro exI[of _ r1]) simp
  have 2: "\<exists>r2. fst (PDFProcessor_process_pdf example_pdf_env (Some failing_client)
                ''doc.pdf'' ()) = Inr r2
        \<and> orc_tables (or_content r2) = []"
    using all r2 by (intro exI[of _ r2]) simp
  have 3: "\<exists>r3. fst (WebEnterpriseProcessor_process_webpage (Some ''token'') example_web_env None
                ''http://example.com/'' ()) = Inr r3
        \<and> is_Enterprise_content (wr_content r3)"
    using all r3 by (intro exI[of _ r3]) simp
  show ?thesis using 1 2 3 by (intro conjI)
qed

text \<open>
  The claim as stated fails for the local web adapter: the table of the example page
  has a row of two cells and a row of one cell, and both are returned as they are.
\<close>

theorem tables_rectangular_counterexample:
  "map_sum id (wc_tables \<circ> wr_content)
     (fst (WebProcessor_process_webpage example_web_env None ''http://example.com/'' ())) =
     Inr [[[''a'', ''b''], [''c'']]]
   \<and> \<not> rectangular [[''a'', ''b''], [''c'']]"
proof -
  have "map_sum id (wc_tables \<circ> wr_content)
     (fst (WebProcessor_process_webpage example_web_env None ''http://example.com/'' ())) =
     map_sum id wc_tables (map_sum id wr_content
       (fst (WebProcessor_process_webpage example_web_env None ''http://example.com/'' ())))"
    by (simp add: sum.map_comp)
  then show ?thesis
    unfolding example_local_content by (simp add: not_rectangular_example)
qed

section \<open>The fallback of the cloud web processor\<close>

lemma retry_same:
  "(case F of Inl e \<Rightarrow> (if is_ClientError e then F else Inl e) | Inr content \<Rightarrow> Inr content) = F"
  by (cases F) simp_all

lemma diffbot_client_error:
  assumes "diffbot_get env token url = Inl e" and "is_ClientError e"
  shows "WebEnterpriseProcessor_extract_content_diffbot env token url = WebEnterpriseProcessor_extract_content_fallback env url"
  using assms by (simp add: WebEnterpriseProcessor_extract_content_diffbot_def diffbot_try_def)

lemma diffbot_error_status:
  assumes "diffbot_get env token url = Inr resp" and "400 \<le> dr_status resp"
  shows "WebEnterpriseProcessor_extract_content_diffbot env token url = WebEnterpriseProcessor_extract_content_fallback env url"
  using assms by (simp add: WebEnterpriseProcessor_extract_content_diffbot_def diffbot_try_def raise_for_status_def)

lemma diffbot_decode_client_error:
  assumes "diffbot_get env token url = Inr resp" and "dr_status resp < 400"
    and "dr_json resp = Inl e" and "is_ClientError e"
  shows "WebEnterpriseProcessor_extract_content_diffbot env token url = WebEnterpriseProcessor_extract_content_fallback env url"
  using assms by (simp add: WebEnterpriseProcessor_extract_content_diffbot_def diffbot_try_def raise_for_status_def)

lemma diffbot_no_objects:
  assumes "diffbot_get env token url = Inr resp" and "dr_status resp < 400"
    and "dr_json resp = Inr None \<or> dr_json resp = Inr (Some [])"
  shows "WebEnterpriseProcessor_extract_content_diffbot env token url = WebEnterpriseProcessor_extract_content_fallback env url"
proof -
  have "diffbot_try env token url = WebEnterpriseProcessor_extract_content_fallback env url"
    using assms by (auto simp: diffbot_try_def raise_for_status_def)
  then show ?thesis
    unfolding WebEnterpriseProcessor_extract_content_diffbot_def by (simp only: retry_same)
qed

lemma diffbot_other_exception:
  assumes "diffbot_get env token url = Inl e
           \<or> (\<exists>resp. diffbot_get env token url = Inr resp \<and> dr_status resp < 400
                  \<and> dr_json resp = Inl e)"
    and "\<not> is_ClientError e"
  shows "WebEnterpriseProcessor_extract_content_diffbot env token url = Inl e"
  using assms by (auto simp: WebEnterpriseProcessor_extract_content_diffbot_def diffbot_try_def raise_for_status_def)

lemma token_not_falsy: "token \<noteq> [] \<Longrightarrow> \<not> falsy (Some token)" and none_falsy: "falsy None"
  by (simp_all add: falsy_def)

lemma enterprise_same_but_label:
  assumes "token \<noteq> []"
    and "WebEnterpriseProcessor_extract_content_diffbot env token url = WebEnterpriseProcessor_extract_content_fallback env url"
  shows "map_sum id wr_content (fst (WebEnterpriseProcessor_process_webpage (Some token) env sc url s)) =
         map_sum id wr_content (fst (WebEnterpriseProcessor_process_webpage None env sc url s))
       \<and> snd (WebEnterpriseProcessor_process_webpage (Some token) env sc url s) =
         snd (WebEnterpriseProcessor_process_webpage None env sc url s)"
proof (cases "WebEnterpriseProcessor_extract_content_fallback env url")
  case (Inl e)
  then show ?thesis using assms
    by (simp add: WebEnterpriseProcessor_process_webpage_def Let_def token_not_falsy none_falsy)
next
  case (Inr content)
  obtain stored s' where st: "(case sc of
                      None \<Rightarrow> returns [] s
                    | Some upload \<Rightarrow>
                        WebEnterpriseProcessor_store_content env sc content
                          (WebEnterpriseProcessor_generate_document_id env url) s) = (stored, s')"
    by (cases "(case sc of
                      None \<Rightarrow> returns [] s
                    | Some upload \<Rightarrow>
                        WebEnterpriseProcessor_store_content env sc content
                          (WebEnterpriseProcessor_generate_document_id env url) s)") simp
  show ?thesis
    using assms Inr st
    by (cases stored)
       (simp_all add: WebEnterpriseProcessor_process_webpage_def Let_def token_not_falsy none_falsy)
qed

lemma enterprise_fatal:
  assumes "token \<noteq> []" and "WebEnterpriseProcessor_extract_content_diffbot env token url = Inl e"
  shows "WebEnterpriseProcessor_process_webpage (Some token) env sc url s = (Inl e, s)"
  using assms by (simp add: WebEnterpriseProcessor_process_webpage_def Let_def token_not_falsy)

lemma timeout_diffbot_get:
  "diffbot_get timeout_web_env token url = Inl (TimeoutError ''timed out'')"
  by (simp add: timeout_web_env_def)

text \<open>
  C6. With a Diffbot token configured: if the request to the API raises a client
  error, or answers with a status from 400 on, or its body cannot be decoded because
  of a client error, or it decodes to a reply without objects, then
  \<open>_extract_content_diffbot\<close> retries, within the same request, with the local
  BeautifulSoup adapter of the processor, \<open>_extract_content_fallback\<close>, and
  returns what that adapter returns for the URL; \<open>process_webpage\<close> then returns
  the content of a direct call of that adapter on the same URL, which is what a
  request without a token makes (one text string, title, images and links), and
  leaves the store as that request leaves it. Any other exception of the call to the
  API fails the request with that exception, and nothing is uploaded.
\<close>

theorem diffbot_fallback_and_hard_failure:
  assumes "token \<noteq> []"
  shows "((\<exists>e. diffbot_get env token url = Inl e \<and> is_ClientError e)
          \<or> (\<exists>resp. diffbot_get env token url = Inr resp
                \<and> (400 \<le> dr_status resp
                     \<or> (\<exists>e. dr_json resp = Inl e \<and> is_ClientError e)
                     \<or> dr_json resp = Inr None
                     \<or> dr_json resp = Inr (Some [])))
          \<longrightarrow> WebEnterpriseProcessor_extract_content_diffbot env token url = WebEnterpriseProcessor_extract_content_fallback env url
              \<and> map_sum id wr_content
                   (fst (WebEnterpriseProcessor_process_webpage (Some token) env storage_client url s)) =
                 map_sum id wr_content
                   (fst (WebEnterpriseProcessor_process_webpage None env storage_client url s))
              \<and> (\<forall>r. fst (WebEnterpriseProcessor_process_webpage (Some token) env storage_client url s)
                        = Inr r
                     \<longrightarrow> is_Enterprise_content (wr_content r))
              \<and> snd (WebEnterpriseProcessor_process_webpage (Some token) env storage_client url s) =
                 snd (WebEnterpriseProcessor_process_webpage None env storage_client url s))
       \<and> ((diffbot_get env token url = Inl e
            \<or> (\<exists>resp. diffbot_get env token url = Inr resp \<and> dr_status resp < 400
                   \<and> dr_json resp = Inl e))
           \<and> \<not> is_ClientError e
          \<longrightarrow> WebEnterpriseProcessor_process_webpage (Some token) env storage_client url s = (Inl e, s))"
proof (intro conjI impI)
  assume recoverable:
    "(\<exists>e. diffbot_get env token url = Inl e \<and> is_ClientError e)
     \<or> (\<exists>resp. diffbot_get env token url = Inr resp
           \<and> (400 \<le> dr_status resp
                \<or> (\<exists>e. dr_json resp = Inl e \<and> is_ClientError e)
                \<or> dr_json resp = Inr None
                \<or> dr_json resp = Inr (Some [])))"
  show same: "WebEnterpriseProcessor_extract_content_diffbot env token url = WebEnterpriseProcessor_extract_content_fallback env url"
  proof (cases "diffbot_get env token url")
    case (Inl e)
    then show ?thesis using recoverable diffbot_client_error by auto
  next
    case (Inr resp)
    show ?thesis
    proof (cases "400 \<le> dr_status resp")
      case True
      with Inr show ?thesis by (rule diffbot_error_status)
    next
      case False
      then have ok: "dr_status resp < 400" by simp
      from recoverable Inr False
      consider e where "dr_json resp = Inl e" "is_ClientError e"
        | "dr_json resp = Inr None \<or> dr_json resp = Inr (Some [])"
        by auto
      then show ?thesis
      proof cases
        case 1
        with Inr ok show ?thesis by (intro diffbot_decode_client_error)
      next
        case 2
        with Inr ok show ?thesis by (intro diffbot_no_objects)
      qed
    qed
  qed
  show "map_sum id wr_content
          (fst (WebEnterpriseProcessor_process_webpage (Some token) env storage_client url s)) =
        map_sum id wr_content
          (fst (WebEnterpriseProcessor_process_webpage None env storage_client url s))"
    by (rule conjunct1[OF enterprise_same_but_label[OF assms same]])
  show "snd (WebEnterpriseProcessor_process_webpage (Some token) env storage_client url s) =
        snd (WebEnterpriseProcessor_process_webpage None env storage_client url s)"
    by (rule conjunct2[OF enterprise_same_but_label[OF assms same]])
  show "\<forall>r. fst (WebEnterpriseProcessor_process_webpage (Some token) env storage_client url s)
               = Inr r
            \<longrightarrow> is_Enterprise_content (wr_content r)"
    using enterprise_web_content_shape[of "Some token" env storage_client url s] by blast
next
  assume fatal:
    "(diffbot_get env token url = Inl e
      \<or> (\<exists>resp. diffbot_get env token url = Inr resp \<and> dr_status resp < 400
             \<and> dr_json resp = Inl e))
     \<and> \<not> is_ClientError e"
  then have "WebEnterpriseProcessor_extract_content_diffbot env token url = Inl e"
    using diffbot_other_exception[of env token url e] by simp
  with assms show "WebEnterpriseProcessor_process_webpage (Some token) env storage_client url s = (Inl e, s)"
    by (rule enterprise_fatal)
qed

theorem diffbot_fallback_and_hard_failure_witness:
  "''token'' \<noteq> []
   \<and> diffbot_get example_web_env ''token'' ''http://example.com/'' =
       Inr \<lparr>dr_status = 200,
          dr_error = ''200, message='OK', url=URL('https://api.diffbot.com/v3/article')'',
          dr_json = Inr (Some [])\<rparr>
   \<and> WebEnterpriseProcessor_extract_content_diffbot example_web_env ''token'' ''http://example.com/'' =
       WebEnterpriseProcessor_extract_content_fallback example_web_env ''http://example.com/''
   \<and> map_sum id wr_content
        (fst (WebEnterpriseProcessor_process_webpage (Some ''token'') example_web_env None
                ''http://example.com/'' ())) =
       Inr (Enterprise_content (Some (''A'' @ [CHR 0x0A] @ ''B'')) (Some ''T'') (Some []) (Some []))
   \<and> diffbot_get timeout_web_env ''token'' ''http://example.com/'' =
       Inl (TimeoutError ''timed out'')
   \<and> WebEnterpriseProcessor_process_webpage (Some ''token'') timeout_web_env None
        ''http://example.com/'' () = (Inl (TimeoutError ''timed out''), ())"
proof -
  have token: "''token'' \<noteq> []" by simp
  note recover = diffbot_fallback_and_hard_failure[OF token, of example_web_env
      "''http://example.com/''" None "()" "TimeoutError ''timed out''"]
  note fail = diffbot_fallback_and_hard_failure[OF token, of timeout_web_env
      "''http://example.com/''" None "()" "TimeoutError ''timed out''"]
  have 1: "WebEnterpriseProcessor_extract_content_diffbot example_web_env ''token'' ''http://example.com/'' =
       WebEnterpriseProcessor_extract_content_fallback example_web_env ''http://example.com/''"
    using recover by (simp add: example_diffbot_get)
  have 2: "map_sum id wr_content
        (fst (WebEnterpriseProcessor_process_webpage (Some ''token'') example_web_env None
                ''http://example.com/'' ())) =
       Inr (Enterprise_content (Some (''A'' @ [CHR 0x0A] @ ''B'')) (Some ''T'') (Some []) (Some []))"
    using recover by (simp add: example_diffbot_get example_enterprise_no_token)
  have 3: "WebEnterpriseProcessor_process_webpage (Some ''token'') timeout_web_env None
        ''http://example.com/'' () = (Inl (TimeoutError ''timed out''), ())"
    using fail by (simp add: timeout_diffbot_get)
  show ?thesis
    using token 1 2 3 by (simp add: example_diffbot_get timeout_diffbot_get)
qed

end
